theory Spec2Isabelle
  imports Complex_Main
begin

section \<open>Fragment assembly: \<open>BatchManager\<close> of goldenverba/server/helpers.py\<close>

text \<open>
  Python exceptions are values. \<open>ValidationError\<close> is what pydantic's
  \<open>FileConfig.model_validate_json\<close> raises on a malformed text (with its message),
  \<open>KeyError\<close> what a dictionary subscript raises on a missing key (with the key),
  \<open>TimeoutError\<close> is \<open>asyncio.TimeoutError\<close>, and \<open>Exception\<close> is any other exception of
  class \<open>Exception\<close>, with its message. \<open>CancelledError\<close> is \<open>asyncio.CancelledError\<close>,
  raised inside an \<open>await\<close> when the task is cancelled: it derives from
  \<open>BaseException\<close>, not from \<open>Exception\<close>, so a handler \<open>except Exception\<close> does not
  catch it.
\<close>

datatype exn =
  ValidationError string
  | KeyError string
  | TimeoutError
  | CancelledError
  | Exception string

text \<open>
  Modelled from the spec: the \<open>DataBatchPayload\<close> declaration of
  goldenverba/server/types.py is not part of the sources at hand; the fields are the
  ones \<open>add_batch\<close> reads (the fragment message of the spec: id, index, total,
  payload, isFinal). Python integers are unbounded, so \<open>order\<close> and \<open>total\<close> are
  \<open>int\<close>.
\<close>

record DataBatchPayload =
  chunk :: string
  isLastChunk :: bool
  total :: int
  fileID :: string
  order :: int

text \<open>
  A Python \<open>dict\<close> iterates in insertion order: assigning to a key that is present
  replaces the value where the key stands, assigning to a new key appends it. The
  \<open>chunks\<close> dictionary is therefore an association list, and \<open>dict_set\<close> is the
  subscript assignment \<open>d[k] = v\<close>.
\<close>

fun dict_set :: "'k \<Rightarrow> 'v \<Rightarrow> ('k \<times> 'v) list \<Rightarrow> ('k \<times> 'v) list" where
  "dict_set k v [] = [(k, v)]"
| "dict_set k v ((k', v') # kvs) =
     (if k' = k then (k, v) # kvs else (k', v') # dict_set k v kvs)"

text \<open>One entry of \<open>self.batches\<close>: the dictionary with the keys "fileID", "total", "chunks".\<close>

record batch =
  batch_fileID :: string
  batch_total :: int
  batch_chunks :: "(int \<times> string) list"

type_synonym batches = "string \<rightharpoonup> batch"

text \<open>\<open>BatchManager.__init__\<close>: \<open>self.batches = {}\<close>.\<close>

definition BatchManager_init :: batches where
  "BatchManager_init = Map.empty"

text \<open>
  \<open>"".join([chunks[chunk] for chunk in chunks])\<close>: the values of the dictionary, in the
  order in which the dictionary iterates its keys.
\<close>

definition join_chunks :: "(int \<times> string) list \<Rightarrow> string" where
  "join_chunks chunks = concat (map snd chunks)"

text \<open>
  \<open>check_batch\<close>. The parser \<open>FileConfig.model_validate_json\<close> belongs to pydantic and
  to the absent types.py, so it is a parameter: it returns the parsed configuration or
  raises. The result is \<open>Inr None\<close> for Python's \<open>return None\<close>.
\<close>

definition check_batch ::
  "(string \<Rightarrow> exn + 'cfg) \<Rightarrow> batches \<Rightarrow> string \<Rightarrow> exn + 'cfg option" where
  "check_batch model_validate_json bs fid =
     (case bs fid of
        None \<Rightarrow> Inl (KeyError fid)
      | Some b \<Rightarrow>
          if int (length (batch_chunks b)) = batch_total b then
            (case model_validate_json (join_chunks (batch_chunks b)) of
               Inl e \<Rightarrow> Inl e
             | Inr fileConfig \<Rightarrow> Inr (Some fileConfig))
          else Inr None)"

text \<open>
  The first two statements of \<open>add_batch\<close>: create the entry when the id is new (its
  "total" is the total of the fragment that creates it), then
  \<open>self.batches[payload.fileID]["chunks"][payload.order] = payload.chunk\<close>.
\<close>

definition store_chunk :: "batches \<Rightarrow> DataBatchPayload \<Rightarrow> batches" where
  "store_chunk bs payload =
     (let bs1 = (if bs (fileID payload) = None
                 then bs(fileID payload \<mapsto>
                        \<lparr>batch_fileID = fileID payload, batch_total = total payload,
                         batch_chunks = []\<rparr>)
                 else bs)
      in case bs1 (fileID payload) of
           None \<Rightarrow> bs1
         | Some b \<Rightarrow>
             bs1(fileID payload \<mapsto>
                 b\<lparr>batch_chunks := dict_set (order payload) (chunk payload) (batch_chunks b)\<rparr>))"

text \<open>
  \<open>add_batch\<close>. The whole body stands in \<open>try: ... except Exception as e: msg.fail(...)\<close>:
  an exception of \<open>check_batch\<close> leaves the \<open>try\<close> before the \<open>del\<close>, the handler only
  logs, and the function falls off its end, which returns \<open>None\<close>. The first component
  is what the caller gets (never \<open>Inl\<close>: nothing is raised past the handler), the
  second the table afterwards.
\<close>

definition add_batch ::
  "(string \<Rightarrow> exn + 'cfg) \<Rightarrow> batches \<Rightarrow> DataBatchPayload \<Rightarrow> (exn + 'cfg option) \<times> batches" where
  "add_batch model_validate_json bs payload =
     (let bs2 = store_chunk bs payload
      in case check_batch model_validate_json bs2 (fileID payload) of
           Inl e \<Rightarrow> (Inr None, bs2)
         | Inr fileConfig \<Rightarrow>
             (Inr fileConfig,
              if fileConfig \<noteq> None \<or> isLastChunk payload
              then bs2(fileID payload := None)
              else bs2))"

text \<open>
  Two stand-ins for the parser, used only to run \<open>add_batch\<close> on concrete fragments:
  one accepts every text and returns it as the configuration, the other rejects every
  text.
\<close>

definition accept_text :: "string \<Rightarrow> exn + string" where
  "accept_text s = Inr s"

definition reject_text :: "string \<Rightarrow> exn + string" where
  "reject_text s = Inl (ValidationError ''Invalid JSON'')"

text \<open>Feeding fragments to a manager one after the other, keeping what each call returned.\<close>

fun add_batches ::
  "(string \<Rightarrow> exn + 'cfg) \<Rightarrow> batches \<Rightarrow> DataBatchPayload list \<Rightarrow>
   (exn + 'cfg option) list \<times> batches" where
  "add_batches p bs [] = ([], bs)"
| "add_batches p bs (x # xs) =
     (case add_batch p bs x of
        (r, bs') \<Rightarrow> (case add_batches p bs' xs of (rs, bs'') \<Rightarrow> (r # rs, bs'')))"

text \<open>
  The table invariant: no index stands twice in a session's dictionary. It holds of the
  empty table and every call of \<open>add_batch\<close> keeps it (shown below), so it holds of
  every table the program can build.
\<close>

definition keys_distinct :: "batches \<Rightarrow> bool" where
  "keys_distinct bs = (\<forall>fid b. bs fid = Some b \<longrightarrow> distinct (map fst (batch_chunks b)))"

subsection \<open>Concrete fragments and tables\<close>

definition frag_CD :: DataBatchPayload where
  "frag_CD = \<lparr>chunk = ''CD'', isLastChunk = False, total = 2, fileID = ''f1'', order = 1\<rparr>"

definition frag_AB :: DataBatchPayload where
  "frag_AB = \<lparr>chunk = ''AB'', isLastChunk = False, total = 2, fileID = ''f1'', order = 0\<rparr>"

definition frag_final :: DataBatchPayload where
  "frag_final = \<lparr>chunk = ''AB'', isLastChunk = True, total = 2, fileID = ''f1'', order = 0\<rparr>"

definition frag_bad :: DataBatchPayload where
  "frag_bad =
     \<lparr>chunk = ''not json'', isLastChunk = True, total = 1, fileID = ''f1'', order = 0\<rparr>"

definition frag_malformed :: DataBatchPayload where
  "frag_malformed =
     \<lparr>chunk = ''{oops'', isLastChunk = False, total = 1, fileID = ''f2'', order = 0\<rparr>"


definition other_session :: batches where
  "other_session = Map.empty(''g1'' \<mapsto>
     \<lparr>batch_fileID = ''g1'', batch_total = 3, batch_chunks = [(0, ''xy'')]\<rparr>)"


section \<open>Status reports: \<open>LoggerManager\<close> of goldenverba/server/helpers.py\<close>

text \<open>
  Modelled from the spec: the \<open>FileStatus\<close> enumeration of goldenverba/server/types.py is
  not part of the sources at hand. The spec gives a report the phases PROCESSING, DONE
  and ERROR; the code names \<open>FileStatus.DONE\<close> and \<open>FileStatus.ERROR\<close> and sends the
  heartbeat with the status "PROCESSING".
\<close>

datatype FileStatus = PROCESSING | DONE | ERROR

text \<open>The \<open>StatusReport\<close> dictionary with the keys "fileID", "status", "message", "took".\<close>

record StatusReport =
  report_fileID :: string
  report_status :: FileStatus
  report_message :: string
  report_took :: real

text \<open>What is handed to \<open>socket.send_json\<close>: a status report or a new-document notice.\<close>

datatype message =
  Status StatusReport
  | NewDocument string string string

text \<open>
  The socket and the running task are the environment. One
  \<open>await self.socket.send_json(payload)\<close> returns (\<open>Sent\<close>), or raises an exception of
  class \<open>Exception\<close> with the message \<open>str(e)\<close> (\<open>Raised e\<close>), or raises
  \<open>asyncio.CancelledError\<close> because the task is cancelled while it waits (\<open>Cancelled\<close>);
  the \<open>n\<close>-th call made through the logger gets the outcome \<open>send_json ws n\<close>.
  \<open>client_state ws n\<close> is the attribute \<open>client_state\<close> when \<open>n\<close> calls have been made
  (\<open>None\<close> when the object has no such attribute). \<open>sleep_cancelled ws n\<close> says whether
  the task is cancelled during an \<open>asyncio.sleep\<close> that starts when \<open>n\<close> calls have been
  made. Quantifying over \<open>ws\<close> covers every behaviour of the connection and of the task.
\<close>

datatype send_result = Sent | Raised string | Cancelled

datatype WebSocketState = CONNECTING | CONNECTED | DISCONNECTED | RESPONSE

record WebSocket =
  send_json :: "nat \<Rightarrow> send_result"
  client_state :: "nat \<Rightarrow> WebSocketState option"
  sleep_cancelled :: "nat \<Rightarrow> bool"

text \<open>What the logger does to the outside: calls of \<open>send_json\<close> and of \<open>asyncio.sleep\<close>.\<close>

datatype event = Send_json message | Sleep real

text \<open>
  The attributes of \<open>LoggerManager\<close>, and two fields that record its effects: \<open>calls\<close>,
  the number of \<open>send_json\<close> calls made so far, and \<open>trace\<close>, the calls and pauses in the
  order in which they happened.
\<close>

record LoggerManager =
  socket :: "WebSocket option"
  websocket_failed :: bool
  retry_count :: nat
  max_retries :: nat
  error_logged :: bool
  calls :: nat
  trace :: "event list"

text \<open>\<open>LoggerManager.__init__\<close>.\<close>

definition LoggerManager_init :: "WebSocket option \<Rightarrow> LoggerManager" where
  "LoggerManager_init sock =
     \<lparr>socket = sock, websocket_failed = False, retry_count = 0, max_retries = 3,
      error_logged = False, calls = 0, trace = []\<rparr>"

subsection \<open>Strings\<close>

text \<open>
  A message is a string of bytes here, and \<open>lower\<close> is \<open>str.lower()\<close> on a message of
  ASCII characters: the letters \<open>A\<close> to \<open>Z\<close> become \<open>a\<close> to \<open>z\<close>, every other character
  is kept. Python lowers the characters outside ASCII by the Unicode tables (the Kelvin
  sign becomes \<open>k\<close>), which this function does not follow; the properties below do not
  depend on how a given message is classified, they are stated for the messages that
  \<open>is_permanent\<close> accepts and for those it rejects. \<open>contains\<close> is Python's substring test
  \<open>phrase in s\<close>.
\<close>

definition lower_char :: "char \<Rightarrow> char" where
  "lower_char c =
     (case map_of (zip ''ABCDEFGHIJKLMNOPQRSTUVWXYZ'' ''abcdefghijklmnopqrstuvwxyz'') c of
        Some l \<Rightarrow> l
      | None \<Rightarrow> c)"

definition lower :: "string \<Rightarrow> string" where
  "lower s = map lower_char s"

fun starts_with :: "string \<Rightarrow> string \<Rightarrow> bool" where
  "starts_with [] s = True"
| "starts_with (p # ps) [] = False"
| "starts_with (p # ps) (c # cs) = (p = c \<and> starts_with ps cs)"

fun contains :: "string \<Rightarrow> string \<Rightarrow> bool" where
  "contains p [] = (p = [])"
| "contains p (c # cs) = (starts_with p (c # cs) \<or> contains p cs)"

text \<open>The double quote and the single quote, which a string literal cannot hold.\<close>

definition dquote :: string where
  "dquote = [CHR 0x22]"

definition squote :: string where
  "squote = [CHR 0x27]"

text \<open>The phrases of \<open>_try_send_with_retry\<close> that mark a failure as permanent.\<close>

definition permanent_phrases :: "string list" where
  "permanent_phrases =
     [''need to call '' @ dquote @ ''accept'' @ dquote @ '' first'',
      ''websocket is not connected'',
      ''cannot call '' @ dquote @ ''send'' @ dquote @ '' once a close message has been sent'',
      ''websocket connection is closed'',
      ''connection is closed'']"

text \<open>
  \<open>any(phrase in error_str for phrase in [...])\<close> with \<open>error_str = str(e).lower()\<close>.
\<close>

definition is_permanent :: "string \<Rightarrow> bool" where
  "is_permanent e = list_ex (\<lambda>phrase. contains phrase (lower e)) permanent_phrases"

subsection \<open>Sending\<close>

text \<open>
  One \<open>await self.socket.send_json(payload)\<close>. On a logger without a socket the attribute
  access on \<open>None\<close> raises before anything is sent.
\<close>

definition socket_send_json :: "LoggerManager \<Rightarrow> message \<Rightarrow> send_result \<times> LoggerManager" where
  "socket_send_json lg m =
     (case socket lg of
        None \<Rightarrow>
          (Raised (squote @ ''NoneType'' @ squote @ '' object has no attribute '' @
                   squote @ ''send_json'' @ squote), lg)
      | Some ws \<Rightarrow>
          (send_json ws (calls lg),
           lg\<lparr>calls := calls lg + 1, trace := trace lg @ [Send_json m]\<rparr>))"

text \<open>
  \<open>await asyncio.sleep(seconds)\<close>: the pause is started, and it ends normally or with
  \<open>CancelledError\<close>.
\<close>

definition asyncio_sleep :: "real \<Rightarrow> LoggerManager \<Rightarrow> (exn + unit) \<times> LoggerManager" where
  "asyncio_sleep seconds lg =
     ((case socket lg of
         None \<Rightarrow> Inr ()
       | Some ws \<Rightarrow> if sleep_cancelled ws (calls lg) then Inl CancelledError else Inr ()),
      lg\<lparr>trace := trace lg @ [Sleep seconds]\<rparr>)"

text \<open>
  \<open>self.websocket_failed = True\<close> followed by
  \<open>if not self.error_logged: msg.warn(...); self.error_logged = True\<close>.
\<close>

definition mark_failed :: "LoggerManager \<Rightarrow> LoggerManager" where
  "mark_failed lg = lg\<lparr>websocket_failed := True, error_logged := True\<rparr>"

text \<open>
  The body of \<open>for attempt in range(self.max_retries)\<close> in \<open>_try_send_with_retry\<close>,
  over the attempts that are left. The result says whether an exception leaves the
  method (\<open>Inl\<close>) and gives the logger afterwards. The handler is \<open>except Exception\<close>:
  it takes every \<open>Raised e\<close>, and \<open>CancelledError\<close> passes it by; the pause stands inside
  the handler, so a \<open>CancelledError\<close> of the pause leaves the method too. The comparison
  \<open>attempt < self.max_retries - 1\<close> is on Python integers.
\<close>

fun retry_loop ::
  "nat list \<Rightarrow> StatusReport \<Rightarrow> LoggerManager \<Rightarrow> (exn + unit) \<times> LoggerManager" where
  "retry_loop [] payload lg = (Inr (), lg)"
| "retry_loop (attempt # rest) payload lg =
     (case socket_send_json lg (Status payload) of
        (Sent, lg1) \<Rightarrow> (Inr (), lg1)
      | (Cancelled, lg1) \<Rightarrow> (Inl CancelledError, lg1)
      | (Raised e, lg1) \<Rightarrow>
          if is_permanent e then (Inr (), mark_failed lg1)
          else if int attempt < int (max_retries lg1) - 1
               then (case asyncio_sleep 0.5 lg1 of
                       (Inl c, lg2) \<Rightarrow> (Inl c, lg2)
                     | (Inr u, lg2) \<Rightarrow> retry_loop rest payload lg2)
               else (Inr (), mark_failed lg1))"

definition try_send_with_retry ::
  "LoggerManager \<Rightarrow> string \<Rightarrow> FileStatus \<Rightarrow> string \<Rightarrow> real \<Rightarrow> (exn + unit) \<times> LoggerManager" where
  "try_send_with_retry lg file_Id status message took =
     retry_loop [0..<max_retries lg]
       \<lparr>report_fileID = file_Id, report_status = status, report_message = message,
        report_took = took\<rparr> lg"

text \<open>\<open>send_report\<close>.\<close>

definition send_report ::
  "LoggerManager \<Rightarrow> string \<Rightarrow> FileStatus \<Rightarrow> string \<Rightarrow> real \<Rightarrow> (exn + unit) \<times> LoggerManager" where
  "send_report lg file_Id status message took =
     (let lg1 = (if status \<in> set [DONE, ERROR]
                 then (if websocket_failed lg
                       then lg\<lparr>websocket_failed := False, error_logged := False\<rparr>
                       else lg)
                 else lg)
      in if socket lg1 \<noteq> None \<and> \<not> websocket_failed lg1
         then try_send_with_retry lg1 file_Id status message took
         else (Inr (), lg1))"

text \<open>
  \<open>_is_websocket_connected\<close>. The import of \<open>WebSocketState\<close> inside it is taken to
  succeed (api.py imports from the same package when the module is loaded).
\<close>

definition is_websocket_connected :: "LoggerManager \<Rightarrow> bool" where
  "is_websocket_connected lg =
     (case socket lg of
        None \<Rightarrow> False
      | Some ws \<Rightarrow>
          (case client_state ws (calls lg) of
             Some st \<Rightarrow> st = CONNECTED
           | None \<Rightarrow> True))"

text \<open>
  \<open>send_heartbeat\<close>: one send, and on an exception that \<open>except Exception\<close> catches only
  the flag is set.
\<close>

definition send_heartbeat :: "LoggerManager \<Rightarrow> string \<Rightarrow> string \<Rightarrow> (exn + unit) \<times> LoggerManager" where
  "send_heartbeat lg file_Id message =
     (if socket lg \<noteq> None \<and> \<not> websocket_failed lg \<and> is_websocket_connected lg
      then (case socket_send_json lg
                   (Status \<lparr>report_fileID = file_Id, report_status = PROCESSING,
                            report_message = message, report_took = 0\<rparr>) of
              (Sent, lg1) \<Rightarrow> (Inr (), lg1)
            | (Cancelled, lg1) \<Rightarrow> (Inl CancelledError, lg1)
            | (Raised e, lg1) \<Rightarrow> (Inr (), lg1\<lparr>websocket_failed := True\<rparr>))
      else (Inr (), lg))"

text \<open>\<open>create_new_document\<close>.\<close>

definition create_new_document ::
  "LoggerManager \<Rightarrow> string \<Rightarrow> string \<Rightarrow> string \<Rightarrow> (exn + unit) \<times> LoggerManager" where
  "create_new_document lg new_file_id document_name original_file_id =
     (if socket lg \<noteq> None \<and> \<not> websocket_failed lg
      then (case socket_send_json lg (NewDocument new_file_id document_name original_file_id) of
              (Sent, lg1) \<Rightarrow> (Inr (), lg1)
            | (Cancelled, lg1) \<Rightarrow> (Inl CancelledError, lg1)
            | (Raised e, lg1) \<Rightarrow> (Inr (), mark_failed lg1))
      else (Inr (), lg))"

text \<open>
  A failure that is retried: a caught exception whose message has none of the permanent
  phrases. A permanent failure: a caught exception whose message has one.
\<close>

fun transient :: "send_result \<Rightarrow> bool" where
  "transient Sent = False"
| "transient (Raised e) = (\<not> is_permanent e)"
| "transient Cancelled = False"

fun permanent :: "send_result \<Rightarrow> bool" where
  "permanent Sent = False"
| "permanent (Raised e) = is_permanent e"
| "permanent Cancelled = False"

text \<open>
  The task is not cancelled during a pause of a retry cycle that starts at the logger
  \<open>lg\<close> and makes \<open>k\<close> pauses: the pause after the call number \<open>j\<close> of the cycle starts
  when \<open>calls lg + j + 1\<close> calls have been made.
\<close>

definition pauses_complete :: "WebSocket \<Rightarrow> LoggerManager \<Rightarrow> nat \<Rightarrow> bool" where
  "pauses_complete ws lg k = (\<forall>j<k. \<not> sleep_cancelled ws (calls lg + j + 1))"

text \<open>A task that is never cancelled, neither in a send nor in a pause.\<close>

definition never_cancelled :: "WebSocket \<Rightarrow> bool" where
  "never_cancelled ws = (\<forall>n. send_json ws n \<noteq> Cancelled \<and> \<not> sleep_cancelled ws n)"

text \<open>
  The trace of one retry cycle that makes \<open>k + 1\<close> calls: \<open>k\<close> times a call and the
  pause of half a second, then the last call.
\<close>

definition cycle :: "nat \<Rightarrow> StatusReport \<Rightarrow> event list" where
  "cycle k payload =
     concat (replicate k [Send_json (Status payload), Sleep 0.5]) @ [Send_json (Status payload)]"

text \<open>
  The flag is only ever set where a socket is present; this holds of a new logger and
  every method keeps it.
\<close>

definition failed_has_socket :: "LoggerManager \<Rightarrow> bool" where
  "failed_has_socket lg = (websocket_failed lg \<longrightarrow> socket lg \<noteq> None)"

subsection \<open>Concrete sockets and loggers\<close>

text \<open>
  A connection on which every send times out, one that is closed (every send raises
  the error starlette raises on a socket that is not connected), and one on which the
  first three sends time out and the later ones are delivered.
\<close>

definition flaky_socket :: WebSocket where
  "flaky_socket =
     \<lparr>send_json = (\<lambda>n. Raised ''timed out''), client_state = (\<lambda>n. Some CONNECTED),
      sleep_cancelled = (\<lambda>n. False)\<rparr>"

definition not_connected_message :: string where
  "not_connected_message =
     ''WebSocket is not connected. Need to call '' @ dquote @ ''accept'' @ dquote @ '' first.''"

definition closed_socket :: WebSocket where
  "closed_socket =
     \<lparr>send_json = (\<lambda>n. Raised not_connected_message),
      client_state = (\<lambda>n. Some CONNECTED), sleep_cancelled = (\<lambda>n. False)\<rparr>"

definition recovering_socket :: WebSocket where
  "recovering_socket =
     \<lparr>send_json = (\<lambda>n. if n < 3 then Raised ''timed out'' else Sent),
      client_state = (\<lambda>n. Some CONNECTED), sleep_cancelled = (\<lambda>n. False)\<rparr>"

text \<open>
  A connection whose task is cancelled in its first send, and one on which the send
  times out and the task is cancelled during the pause that follows.
\<close>

definition cancelled_in_send :: WebSocket where
  "cancelled_in_send =
     \<lparr>send_json = (\<lambda>n. Cancelled), client_state = (\<lambda>n. Some CONNECTED),
      sleep_cancelled = (\<lambda>n. False)\<rparr>"

definition cancelled_in_pause :: WebSocket where
  "cancelled_in_pause =
     \<lparr>send_json = (\<lambda>n. Raised ''timed out''), client_state = (\<lambda>n. Some CONNECTED),
      sleep_cancelled = (\<lambda>n. True)\<rparr>"

text \<open>The logger that has given up on \<open>recovering_socket\<close> after three sends.\<close>

definition failed_logger :: LoggerManager where
  "failed_logger =
     \<lparr>socket = Some recovering_socket, websocket_failed = True, retry_count = 0,
      max_retries = 3, error_logged = True, calls = 3, trace = []\<rparr>"

section \<open>Verification against the store: server/api.py\<close>

text \<open>
  Modelled from the spec: the \<open>FileConfig\<close> declaration of goldenverba/server/types.py is
  not part of the sources at hand; the fields are the two that the functions below read
  (the identity of the spec's descriptor: id and name).
\<close>

record FileConfig =
  config_fileID :: string
  filename :: string

text \<open>
  An object of a query response: its \<open>uuid\<close> and \<open>doc.properties.get("title")\<close>, which is
  \<open>None\<close> when the object has no title.
\<close>

record candidate =
  uuid :: string
  title :: "string option"

text \<open>
  The store and the running task are the environment. A client answers the three calls
  that the check makes; each answer may depend on the attempt during which the call is
  made, and is a value or an exception (\<open>Inl CancelledError\<close> when the task is cancelled
  while it awaits the call). \<open>query_bm25\<close> is the call wrapped in
  \<open>asyncio.wait_for(..., 30.0)\<close>, so \<open>Inl TimeoutError\<close> is its timeout.
  \<open>query_fetch_objects client n name\<close> is \<open>fetch_objects\<close> with the filter
  \<open>Filter.by_property("title").equal(name)\<close> and limit 1: what it returns is decided by
  the store, not by the program. \<open>pause_cancelled client n\<close> says whether the task is
  cancelled during the \<open>asyncio.sleep\<close> that ends attempt \<open>n\<close>.
\<close>

record WeaviateClient =
  collections_exists :: "nat \<Rightarrow> exn + bool"
  query_bm25 :: "nat \<Rightarrow> string \<Rightarrow> exn + candidate list"
  query_fetch_objects :: "nat \<Rightarrow> string \<Rightarrow> exn + candidate list"
  pause_cancelled :: "nat \<Rightarrow> bool"

text \<open>
  What a handler \<open>except Exception\<close> catches: every exception of the model but
  \<open>CancelledError\<close>.
\<close>

definition is_Exception :: "exn \<Rightarrow> bool" where
  "is_Exception e = (e \<noteq> CancelledError)"

text \<open>
  How the body of the loop ends when it does not raise: \<open>return\<close> of a value, or
  \<open>await asyncio.sleep(seconds); continue\<close>.
\<close>

datatype step = Return bool | Continue real

text \<open>
  The parameter \<open>max_retries\<close> of the source is written \<open>retries\<close> below, since
  \<open>max_retries\<close> names the attribute of the logger.
  \<open>if attempt < max_retries - 1: await asyncio.sleep(seconds); continue\<close> followed by
  \<open>return False\<close>, which ends every branch of the loop body that has found nothing.
\<close>

definition retry_or_give_up :: "nat \<Rightarrow> int \<Rightarrow> real \<Rightarrow> step" where
  "retry_or_give_up attempt retries seconds =
     (if int attempt < retries - 1 then Continue seconds else Return False)"

text \<open>
  The \<open>try\<close> block of one attempt, up to the pause that ends it. \<open>Inl e\<close> is an exception
  that leaves the block: one raised by \<open>exists\<close>, by the ranked query (other than its
  timeout), or by the fallback query inside the handler of the timeout.
\<close>

definition attempt_body :: "WeaviateClient \<Rightarrow> FileConfig \<Rightarrow> int \<Rightarrow> nat \<Rightarrow> exn + step" where
  "attempt_body client fileConfig retries attempt =
     (case collections_exists client attempt of
        Inl e \<Rightarrow> Inl e
      | Inr exists \<Rightarrow>
          if \<not> exists then Inr (retry_or_give_up attempt retries 1)
          else
            (case query_bm25 client attempt (filename fileConfig) of
               Inr objects \<Rightarrow>
                 if objects \<noteq> [] then
                   (if list_ex (\<lambda>doc. title doc = Some (filename fileConfig)) objects
                    then Inr (Return True)
                    else Inr (retry_or_give_up attempt retries 2))
                 else Inr (retry_or_give_up attempt retries 2)
             | Inl TimeoutError \<Rightarrow>
                 (case query_fetch_objects client attempt (filename fileConfig) of
                    Inl e \<Rightarrow> Inl e
                  | Inr objects \<Rightarrow>
                      if objects \<noteq> [] then Inr (Return True)
                      else Inr (retry_or_give_up attempt retries 2))
             | Inl e \<Rightarrow> Inl e))"

text \<open>
  \<open>for attempt in range(max_retries)\<close> over the attempts that are left, then the
  \<open>return False\<close> after the loop. The handler of the loop is \<open>except Exception\<close>: it takes
  every exception of the block but \<open>CancelledError\<close>, which leaves the function, as does
  the cancellation of a pause. The second component is the list of the pauses made, in
  seconds.
\<close>

fun check_loop ::
  "nat list \<Rightarrow> WeaviateClient \<Rightarrow> FileConfig \<Rightarrow> int \<Rightarrow> real list \<Rightarrow> (exn + bool) \<times> real list" where
  "check_loop [] client fileConfig retries slept = (Inr False, slept)"
| "check_loop (attempt # rest) client fileConfig retries slept =
     (case attempt_body client fileConfig retries attempt of
        Inr (Return b) \<Rightarrow> (Inr b, slept)
      | Inr (Continue seconds) \<Rightarrow>
          if pause_cancelled client attempt then (Inl CancelledError, slept @ [seconds])
          else check_loop rest client fileConfig retries (slept @ [seconds])
      | Inl e \<Rightarrow>
          if \<not> is_Exception e then (Inl e, slept)
          else if int attempt < retries - 1
          then (if pause_cancelled client attempt then (Inl CancelledError, slept @ [2])
                else check_loop rest client fileConfig retries (slept @ [2]))
          else (Inr False, slept))"

definition check_document_in_weaviate_with_retry ::
  "WeaviateClient \<Rightarrow> FileConfig \<Rightarrow> int \<Rightarrow> (exn + bool) \<times> real list" where
  "check_document_in_weaviate_with_retry client fileConfig retries =
     check_loop [0..<nat retries] client fileConfig retries []"



subsection \<open>Concrete stores\<close>


definition near_match_store :: WeaviateClient where
  "near_match_store =
     \<lparr>collections_exists = (\<lambda>n. Inr True),
      query_bm25 = (\<lambda>n name. Inr [\<lparr>uuid = ''u2'', title = Some ''AA.pdf''\<rparr>,
                                   \<lparr>uuid = ''u3'', title = Some ''a.pdf''\<rparr>]),
      query_fetch_objects = (\<lambda>n name. Inr []), pause_cancelled = (\<lambda>n. False)\<rparr>"

definition exact_match_store :: WeaviateClient where
  "exact_match_store =
     \<lparr>collections_exists = (\<lambda>n. Inr True),
      query_bm25 = (\<lambda>n name. Inr [\<lparr>uuid = ''u2'', title = Some ''AA.pdf''\<rparr>,
                                   \<lparr>uuid = ''u4'', title = Some ''A.pdf''\<rparr>]),
      query_fetch_objects = (\<lambda>n name. Inr []), pause_cancelled = (\<lambda>n. False)\<rparr>"

text \<open>
  A store without the collection, a store whose task is cancelled in the first call,
  and a store that does not answer at all (every call raises).
\<close>

definition empty_store :: WeaviateClient where
  "empty_store =
     \<lparr>collections_exists = (\<lambda>n. Inr False),
      query_bm25 = (\<lambda>n name. Inr []),
      query_fetch_objects = (\<lambda>n name. Inr []), pause_cancelled = (\<lambda>n. False)\<rparr>"



definition file_A :: FileConfig where
  "file_A = \<lparr>config_fileID = ''f1'', filename = ''A.pdf''\<rparr>"


section \<open>Import with verification: server/api.py\<close>

text \<open>
  \<open>str(e)\<close> for the exceptions of the model: the message of an \<open>Exception\<close> or of a
  validation error, the \<open>repr\<close> of the key of a \<open>KeyError\<close> (written here for a key
  without quotes or escapes), and the empty string for an exception raised without
  arguments.
\<close>

fun str_exn :: "exn \<Rightarrow> string" where
  "str_exn (Exception m) = m"
| "str_exn (ValidationError m) = m"
| "str_exn (KeyError k) = squote @ k @ squote"
| "str_exn TimeoutError = []"
| "str_exn CancelledError = []"

text \<open>
  Modelled from the spec: \<open>manager.import_document\<close> (the importer) and
  \<open>client_manager.connect\<close> are not part of the sources at hand. Each is left as an
  arbitrary function of its arguments: the importer returns or raises and hands back the
  logger as its own reports have left it; \<open>connect\<close> returns a client or raises.
  \<open>elapsed\<close> is \<open>time.time() - start_time\<close> read after the importer, and
  \<open>commit_pause_cancelled\<close> says whether the task is cancelled during the
  \<open>asyncio.sleep(2)\<close> that precedes the verification. The type \<open>'c\<close> is that of the
  credentials; \<open>credentials=None\<close> is \<open>None\<close>, and every credentials object is truthy.
\<close>

record 'c globals =
  manager_import_document ::
    "WeaviateClient \<Rightarrow> FileConfig \<Rightarrow> LoggerManager \<Rightarrow> 'c option \<Rightarrow> (exn + unit) \<times> LoggerManager"
  client_manager_connect :: "'c \<Rightarrow> exn + WeaviateClient"
  elapsed :: real
  commit_pause_cancelled :: bool

text \<open>
  The value of \<open>document_exists\<close> after the \<open>try\<close> block of the verification, or the
  exception that leaves it. With credentials the check runs on a fresh connection,
  otherwise on the client at hand. \<open>except Exception as verification_error\<close> runs the
  check once more on the client at hand, and \<open>except Exception as fallback_error\<close> sets
  \<open>document_exists = False\<close>; neither handler takes \<open>CancelledError\<close>. The pauses of the
  check are not kept.
\<close>

definition verify_document ::
  "'c globals \<Rightarrow> WeaviateClient \<Rightarrow> FileConfig \<Rightarrow> 'c option \<Rightarrow> exn + bool" where
  "verify_document g client fileConfig stored_credentials =
     (case (case stored_credentials of
              Some c \<Rightarrow>
                (case client_manager_connect g c of
                   Inl e \<Rightarrow> Inl e
                 | Inr verification_client \<Rightarrow>
                     fst (check_document_in_weaviate_with_retry verification_client fileConfig 3))
            | None \<Rightarrow> fst (check_document_in_weaviate_with_retry client fileConfig 3)) of
        Inr document_exists \<Rightarrow> Inr document_exists
      | Inl verification_error \<Rightarrow>
          if \<not> is_Exception verification_error then Inl verification_error
          else
            (case fst (check_document_in_weaviate_with_retry client fileConfig 3) of
               Inr document_exists \<Rightarrow> Inr document_exists
             | Inl fallback_error \<Rightarrow>
                 if is_Exception fallback_error then Inr False else Inl fallback_error))"

text \<open>
  \<open>resilient_import_document\<close> from the pause after the importer on; \<open>import_error\<close> is
  \<open>None\<close> or the exception caught around the importer. Each \<open>send_report\<close> stands in a
  \<open>try\<close> with the handler \<open>except Exception\<close>, which does not take \<open>CancelledError\<close>. The
  result is \<open>Inr ()\<close> when the function returns and \<open>Inl e\<close> when \<open>e\<close> is raised to the
  caller.
\<close>

definition verify_and_report ::
  "'c globals \<Rightarrow> WeaviateClient \<Rightarrow> FileConfig \<Rightarrow> LoggerManager \<Rightarrow> 'c option \<Rightarrow> exn option \<Rightarrow>
   (exn + unit) \<times> LoggerManager" where
  "verify_and_report g client fileConfig logger stored_credentials import_error =
     (if commit_pause_cancelled g then (Inl CancelledError, logger)
      else
        (case verify_document g client fileConfig stored_credentials of
           Inl e \<Rightarrow> (Inl e, logger)
         | Inr document_exists \<Rightarrow>
             if document_exists then
               (case send_report logger (config_fileID fileConfig) DONE
                       (''Import for '' @ filename fileConfig @ '' completed successfully'')
                       (elapsed g) of
                  (Inl report_error, logger1) \<Rightarrow>
                    if is_Exception report_error then (Inr (), logger1)
                    else (Inl report_error, logger1)
                | (Inr u, logger1) \<Rightarrow> (Inr (), logger1))
             else
               (let error_message =
                      (case import_error of
                         Some e \<Rightarrow> ''Import failed: '' @ str_exn e
                       | None \<Rightarrow>
                           ''Document not found in Weaviate after import (verification failed)'');
                    raised =
                      (case import_error of
                         Some e \<Rightarrow> e
                       | None \<Rightarrow> Exception ''Document not found in Weaviate after import'')
                in case send_report logger (config_fileID fileConfig) ERROR error_message
                          (elapsed g) of
                     (Inl report_error, logger1) \<Rightarrow>
                       if is_Exception report_error then (Inl raised, logger1)
                       else (Inl report_error, logger1)
                   | (Inr u, logger1) \<Rightarrow> (Inl raised, logger1))))"

text \<open>
  \<open>resilient_import_document\<close>: the importer in a \<open>try\<close> whose handler
  \<open>except Exception as e\<close> keeps the exception in \<open>import_error\<close>, then the verification
  and the final report.
\<close>

definition resilient_import_document ::
  "'c globals \<Rightarrow> WeaviateClient \<Rightarrow> FileConfig \<Rightarrow> LoggerManager \<Rightarrow> 'c option \<Rightarrow>
   (exn + unit) \<times> LoggerManager" where
  "resilient_import_document g client fileConfig logger credentials =
     (case manager_import_document g client fileConfig logger credentials of
        (Inl e, logger1) \<Rightarrow>
          if is_Exception e
          then verify_and_report g client fileConfig logger1 credentials (Some e)
          else (Inl e, logger1)
      | (Inr u, logger1) \<Rightarrow> verify_and_report g client fileConfig logger1 credentials None)"

subsection \<open>Concrete runs\<close>

text \<open>
  An importer that raises and one that returns, both leaving the logger as it is, with
  no fresh connection to be had; and a connection on which every send is delivered.
\<close>

definition failing_import :: "unit globals" where
  "failing_import =
     \<lparr>manager_import_document = (\<lambda>client fileConfig logger credentials.
         (Inl (Exception ''boom''), logger)),
      client_manager_connect = (\<lambda>c. Inl (Exception ''connection refused'')),
      elapsed = 1.5, commit_pause_cancelled = False\<rparr>"

definition returning_import :: "unit globals" where
  "returning_import =
     \<lparr>manager_import_document = (\<lambda>client fileConfig logger credentials. (Inr (), logger)),
      client_manager_connect = (\<lambda>c. Inl (Exception ''connection refused'')),
      elapsed = 1.5, commit_pause_cancelled = False\<rparr>"

definition open_socket :: WebSocket where
  "open_socket =
     \<lparr>send_json = (\<lambda>n. Sent), client_state = (\<lambda>n. Some CONNECTED),
      sleep_cancelled = (\<lambda>n. False)\<rparr>"
section \<open>Properties\<close>

subsection \<open>Facts about the dictionary\<close>

lemma dict_set_keys_present:
  "k \<in> fst ` set kvs \<Longrightarrow> map fst (dict_set k v kvs) = map fst kvs"
  by (induction kvs) force+

lemma dict_set_keys_absent:
  "k \<notin> fst ` set kvs \<Longrightarrow> map fst (dict_set k v kvs) = map fst kvs @ [k]"
  by (induction kvs) auto

lemma dict_set_absent:
  "k \<notin> fst ` set kvs \<Longrightarrow> dict_set k v kvs = kvs @ [(k, v)]"
  by (induction kvs) auto

lemma dict_set_lookup_same: "map_of (dict_set k v kvs) k = Some v"
  by (induction kvs) auto

lemma dict_set_lookup_other: "k' \<noteq> k \<Longrightarrow> map_of (dict_set k v kvs) k' = map_of kvs k'"
  by (induction kvs) auto

lemma dict_set_distinct:
  "distinct (map fst kvs) \<Longrightarrow> distinct (map fst (dict_set k v kvs))"
proof (cases "k \<in> fst ` set kvs")
  case True
  assume "distinct (map fst kvs)"
  with True show ?thesis by (simp add: dict_set_keys_present)
next
  case False
  assume "distinct (map fst kvs)"
  with False show ?thesis by (simp add: dict_set_keys_absent)
qed



subsection \<open>Facts about \<open>store_chunk\<close> and the table invariant\<close>

lemma store_chunk_other: "fid \<noteq> fileID payload \<Longrightarrow> store_chunk bs payload fid = bs fid"
  by (simp add: store_chunk_def Let_def split: option.splits)

lemma store_chunk_same:
  "store_chunk bs payload (fileID payload) =
     Some (case bs (fileID payload) of
             None \<Rightarrow> \<lparr>batch_fileID = fileID payload, batch_total = total payload,
                       batch_chunks = [(order payload, chunk payload)]\<rparr>
           | Some b \<Rightarrow>
               b\<lparr>batch_chunks := dict_set (order payload) (chunk payload) (batch_chunks b)\<rparr>)"
  by (simp add: store_chunk_def Let_def split: option.splits)

lemma store_chunk_del:
  "(store_chunk bs payload)(fileID payload := None) = bs(fileID payload := None)"
  by (rule ext) (simp add: store_chunk_other)

lemma keys_distinct_init: "keys_distinct BatchManager_init"
  by (simp add: keys_distinct_def BatchManager_init_def)

lemma keys_distinct_store_chunk:
  assumes "keys_distinct bs"
  shows "keys_distinct (store_chunk bs payload)"
  unfolding keys_distinct_def
proof (intro allI impI)
  fix fid b
  assume h: "store_chunk bs payload fid = Some b"
  show "distinct (map fst (batch_chunks b))"
  proof (cases "fid = fileID payload")
    case False
    with h assms show ?thesis by (simp add: store_chunk_other keys_distinct_def)
  next
    case True
    with h assms show ?thesis
      by (auto simp: store_chunk_same keys_distinct_def dict_set_distinct split: option.splits)
  qed
qed

lemma keys_distinct_add_batch:
  assumes "keys_distinct bs"
  shows "keys_distinct (snd (add_batch mvj bs payload))"
proof -
  have "keys_distinct (store_chunk bs payload)"
    using assms by (rule keys_distinct_store_chunk)
  then show ?thesis
    by (auto simp: add_batch_def Let_def keys_distinct_def split: sum.splits if_splits)
qed

lemma add_batch_never_raises: "\<exists>r. fst (add_batch mvj bs payload) = Inr r"
  by (simp add: add_batch_def Let_def split: sum.splits)

subsection \<open>Order of assembly\<close>

text \<open>
  C1. The claim: whatever the order in which the fragments of a session arrive, the
  text assembled at completion is the concatenation of the fragments in ascending
  index order. \<open>check_batch\<close> joins the dictionary's values in the order in which the
  dictionary iterates, which is the order in which the indices were first stored, and
  it never sorts by \<open>order\<close>: the fragment with index 1 and text "CD" followed by the
  fragment with index 0 and text "AB" (total 2) is assembled to "CDAB", not "ABCD".
\<close>

theorem C1_reverse_arrival_assembles_in_arrival_order:
  "fst (add_batches accept_text BatchManager_init [frag_CD, frag_AB]) =
     [Inr None, Inr (Some ''CDAB'')]"
  by (simp add: add_batch_def store_chunk_def check_batch_def join_chunks_def accept_text_def
      BatchManager_init_def frag_CD_def frag_AB_def Let_def)

subsection \<open>The last fragment\<close>

text \<open>
  C4, as stated, fails: a fragment with \<open>isLastChunk\<close> set that arrives while fewer
  indices are stored than the session's total is not assembled and not parsed.
  \<open>check_batch\<close> answers \<open>None\<close> because the count differs from the total, and
  \<open>add_batch\<close> only deletes the session and returns that \<open>None\<close>. With a parser that
  accepts every text, the claim would have "AB" returned here.
\<close>

theorem C4_counterexample_final_fragment_not_parsed:
  "fst (add_batch accept_text BatchManager_init frag_final) = Inr None
   \<and> fst (add_batch accept_text BatchManager_init frag_final) \<noteq> Inr (Some ''AB'')
   \<and> \<not> isl (fst (add_batch accept_text BatchManager_init frag_final))
   \<and> snd (add_batch accept_text BatchManager_init frag_final) ''f1'' = None"
  by (simp add: add_batch_def store_chunk_def check_batch_def join_chunks_def accept_text_def
      BatchManager_init_def frag_final_def Let_def)

text \<open>
  C4, amended: when a fragment arrives with \<open>isLastChunk\<close> set and, once it is stored,
  the number of distinct stored indices is still below the session's total, nothing
  is assembled or parsed, whatever the parser: \<open>add_batch\<close> returns \<open>None\<close> and the
  session is removed from the table (every other session is left as it was).
\<close>

theorem C4_final_fragment_below_total_drops_session:
  assumes "isLastChunk payload"
    and "store_chunk bs payload (fileID payload) = Some b"
    and "int (length (batch_chunks b)) < batch_total b"
  shows "add_batch mvj bs payload = (Inr None, bs(fileID payload := None))"
  using assms by (simp add: add_batch_def check_batch_def Let_def store_chunk_del)

text \<open>Witness of C4, amended: the first and last fragment of a session of declared total 2.\<close>

theorem C4_final_fragment_below_total_witness:
  "add_batch accept_text BatchManager_init frag_final =
     (Inr None, BatchManager_init(''f1'' := None))"
proof -
  let ?b = "\<lparr>batch_fileID = ''f1'', batch_total = 2, batch_chunks = [(0, ''AB'')]\<rparr>"
  have h1: "isLastChunk frag_final" by (simp add: frag_final_def)
  have h2: "store_chunk BatchManager_init frag_final (fileID frag_final) = Some ?b"
    by (simp add: store_chunk_def BatchManager_init_def frag_final_def Let_def)
  have h3: "int (length (batch_chunks ?b)) < batch_total ?b" by simp
  from C4_final_fragment_below_total_drops_session
    [where bs = BatchManager_init and payload = frag_final and b = ?b
      and mvj = accept_text, OF h1 h2 h3]
  show ?thesis by (simp add: frag_final_def)
qed

subsection \<open>Removal of the session\<close>

text \<open>
  C5. The claim: after any completion signal the session is removed, also when the
  parse fails. In \<open>add_batch\<close> the \<open>del\<close> stands after the call of \<open>check_batch\<close>
  inside the \<open>try\<close>; when the parser raises, control goes to the handler and the
  \<open>del\<close> is skipped. The single fragment of a session of total 1, marked last, with a
  text the parser rejects: the session is still in the table afterwards.
\<close>

theorem C5_parse_failure_leaves_session_in_table:
  "snd (add_batch reject_text BatchManager_init frag_bad) ''f1'' =
     Some \<lparr>batch_fileID = ''f1'', batch_total = 1, batch_chunks = [(0, ''not json'')]\<rparr>"
  by (simp add: add_batch_def store_chunk_def check_batch_def join_chunks_def reject_text_def
      BatchManager_init_def frag_bad_def Let_def)

text \<open>
  The evaluation above, used: after the failed parse the table still has an entry for
  the upload, so the session was not removed.
\<close>

theorem C5_parse_failure_session_present_witness:
  "snd (add_batch reject_text BatchManager_init frag_bad) ''f1'' \<noteq> None"
  using C5_parse_failure_leaves_session_in_table by simp

subsection \<open>A malformed payload\<close>

text \<open>
  C6, as stated, fails: when the assembled text is malformed the caller of
  \<open>add_batch\<close> does not see a parse error. The handler of \<open>add_batch\<close> catches the
  parser's exception and the function returns \<open>None\<close>, the very result of a call
  that completes nothing.
\<close>

theorem C6_counterexample_parse_error_not_raised:
  "fst (add_batch reject_text other_session frag_malformed) = Inr None
   \<and> \<not> isl (fst (add_batch reject_text other_session frag_malformed))"
  by (simp add: add_batch_def store_chunk_def check_batch_def join_chunks_def reject_text_def
      other_session_def frag_malformed_def Let_def)

text \<open>
  C6, amended: when the stored indices of a session reach its total and the parser
  rejects the assembled text, \<open>add_batch\<close> raises nothing and returns \<open>None\<close> (the
  failure is caught and logged inside), and every other session of the table is
  exactly as before the call.
\<close>

theorem C6_malformed_payload_returns_none_other_sessions_kept:
  assumes "store_chunk bs payload (fileID payload) = Some b"
    and "int (length (batch_chunks b)) = batch_total b"
    and "mvj (join_chunks (batch_chunks b)) = Inl e"
  shows "fst (add_batch mvj bs payload) = Inr None
    \<and> (\<forall>fid. fid \<noteq> fileID payload \<longrightarrow> snd (add_batch mvj bs payload) fid = bs fid)"
  using assms by (simp add: add_batch_def check_batch_def Let_def store_chunk_other)

text \<open>
  Witness of C6, amended: a malformed one-fragment upload "f2" beside the session "g1".
\<close>

theorem C6_malformed_payload_witness:
  "fst (add_batch reject_text other_session frag_malformed) = Inr None
   \<and> snd (add_batch reject_text other_session frag_malformed) ''g1'' = other_session ''g1''"
proof -
  let ?b = "\<lparr>batch_fileID = ''f2'', batch_total = 1, batch_chunks = [(0, ''{oops'')]\<rparr>"
  have h1: "store_chunk other_session frag_malformed (fileID frag_malformed) = Some ?b"
    by (simp add: store_chunk_def other_session_def frag_malformed_def Let_def)
  have h2: "int (length (batch_chunks ?b)) = batch_total ?b" by simp
  have h3: "reject_text (join_chunks (batch_chunks ?b)) = Inl (ValidationError ''Invalid JSON'')"
    by (simp add: reject_text_def)
  have h4: "''g1'' \<noteq> fileID frag_malformed" by (simp add: frag_malformed_def)
  from C6_malformed_payload_returns_none_other_sessions_kept
    [where bs = other_session and payload = frag_malformed and b = ?b
      and mvj = reject_text and e = "ValidationError ''Invalid JSON''", OF h1 h2 h3] h4
  show ?thesis by blast
qed

subsection \<open>A repeated index\<close>


subsection \<open>The retry loop\<close>

lemma retry_loop_socket: "socket (snd (retry_loop as p lg)) = socket lg"
  by (induction as arbitrary: lg)
    (auto simp: socket_send_json_def asyncio_sleep_def mark_failed_def
      split: prod.splits send_result.splits option.splits sum.splits)

lemma retry_loop_max_retries: "max_retries (snd (retry_loop as p lg)) = max_retries lg"
  by (induction as arbitrary: lg)
    (auto simp: socket_send_json_def asyncio_sleep_def mark_failed_def
      split: prod.splits send_result.splits option.splits sum.splits)

text \<open>The only exception that leaves the loop is the cancellation of the task.\<close>

lemma retry_loop_raises_only_cancelled:
  "fst (retry_loop as p lg) = Inr () \<or> fst (retry_loop as p lg) = Inl CancelledError"
  by (induction as arbitrary: lg)
    (auto simp: socket_send_json_def asyncio_sleep_def
      split: prod.splits send_result.splits option.splits sum.splits)

text \<open>Where the task is never cancelled, nothing leaves the loop.\<close>

lemma retry_loop_never_raises:
  "(\<forall>ws. socket lg = Some ws \<longrightarrow> never_cancelled ws) \<Longrightarrow> fst (retry_loop as p lg) = Inr ()"
proof (induction as arbitrary: lg)
  case Nil
  then show ?case by simp
next
  case (Cons a as)
  show ?case
  proof (cases "socket lg")
    case None
    let ?lg2 = "lg\<lparr>trace := trace lg @ [Sleep 0.5]\<rparr>"
    have "fst (retry_loop as p ?lg2) = Inr ()"
      by (rule Cons.IH) (simp add: None)
    with None show ?thesis
      by (simp add: socket_send_json_def asyncio_sleep_def)
  next
    case (Some ws)
    with Cons.prems have nc: "never_cancelled ws" by simp
    let ?lg1 = "lg\<lparr>calls := calls lg + 1, trace := trace lg @ [Send_json (Status p)]\<rparr>"
    let ?lg2 = "?lg1\<lparr>trace := trace ?lg1 @ [Sleep 0.5]\<rparr>"
    have ih: "fst (retry_loop as p ?lg2) = Inr ()"
      by (rule Cons.IH) (simp add: Some nc)
    from nc have a: "send_json ws (calls lg) \<noteq> Cancelled"
      and b: "\<not> sleep_cancelled ws (calls lg + 1)"
      by (simp_all add: never_cancelled_def)
    show ?thesis
    proof (cases "send_json ws (calls lg)")
      case Sent
      with Some show ?thesis by (simp add: socket_send_json_def)
    next
      case Cancelled
      with a show ?thesis by simp
    next
      case (Raised e)
      with Some b ih show ?thesis
        by (simp add: socket_send_json_def asyncio_sleep_def)
    qed
  qed
qed

text \<open>One round of the loop, by the outcome of its call and of its pause.\<close>

lemma retry_step_transient:
  assumes "socket lg = Some ws" and "transient (send_json ws (calls lg))"
    and "Suc a < max_retries lg" and "\<not> sleep_cancelled ws (calls lg + 1)"
  shows "retry_loop (a # rest) p lg =
     retry_loop rest p
       (lg\<lparr>calls := calls lg + 1, trace := trace lg @ [Send_json (Status p), Sleep 0.5]\<rparr>)"
  using assms
  by (cases "send_json ws (calls lg)") (auto simp: socket_send_json_def asyncio_sleep_def)

lemma retry_step_pause_cancelled:
  assumes "socket lg = Some ws" and "transient (send_json ws (calls lg))"
    and "Suc a < max_retries lg" and "sleep_cancelled ws (calls lg + 1)"
  shows "retry_loop (a # rest) p lg =
     (Inl CancelledError,
      lg\<lparr>calls := calls lg + 1, trace := trace lg @ [Send_json (Status p), Sleep 0.5]\<rparr>)"
  using assms
  by (cases "send_json ws (calls lg)") (auto simp: socket_send_json_def asyncio_sleep_def)

lemma retry_step_sent:
  assumes "socket lg = Some ws" and "send_json ws (calls lg) = Sent"
  shows "retry_loop (a # rest) p lg =
     (Inr (), lg\<lparr>calls := calls lg + 1, trace := trace lg @ [Send_json (Status p)]\<rparr>)"
  using assms by (simp add: socket_send_json_def)

lemma retry_step_send_cancelled:
  assumes "socket lg = Some ws" and "send_json ws (calls lg) = Cancelled"
  shows "retry_loop (a # rest) p lg =
     (Inl CancelledError,
      lg\<lparr>calls := calls lg + 1, trace := trace lg @ [Send_json (Status p)]\<rparr>)"
  using assms by (simp add: socket_send_json_def)

lemma retry_step_permanent:
  assumes "socket lg = Some ws" and "permanent (send_json ws (calls lg))"
  shows "retry_loop (a # rest) p lg =
     (Inr (), mark_failed (lg\<lparr>calls := calls lg + 1, trace := trace lg @ [Send_json (Status p)]\<rparr>))"
  using assms
  by (cases "send_json ws (calls lg)") (auto simp: socket_send_json_def)

lemma retry_step_last:
  assumes "socket lg = Some ws" and "transient (send_json ws (calls lg))"
    and "\<not> Suc a < max_retries lg"
  shows "retry_loop (a # rest) p lg =
     (Inr (), mark_failed (lg\<lparr>calls := calls lg + 1, trace := trace lg @ [Send_json (Status p)]\<rparr>))"
  using assms
  by (cases "send_json ws (calls lg)") (auto simp: socket_send_json_def)

text \<open>
  \<open>k\<close> failures that are retried, each followed by a pause that completes, take the
  loop from attempt \<open>a\<close> to attempt \<open>a + k\<close>.
\<close>

lemma retry_loop_transient_prefix:
  assumes "socket lg = Some ws" and "max_retries lg = m" and "a + k < m"
    and "\<forall>j<k. transient (send_json ws (calls lg + j))"
    and "pauses_complete ws lg k"
  shows "retry_loop [a..<m] p lg =
     retry_loop [a + k..<m] p
       (lg\<lparr>calls := calls lg + k,
           trace := trace lg @ concat (replicate k [Send_json (Status p), Sleep 0.5])\<rparr>)"
  using assms
proof (induction k arbitrary: a lg)
  case 0
  then show ?case by simp
next
  case (Suc k)
  let ?lg1 = "lg\<lparr>calls := calls lg + 1, trace := trace lg @ [Send_json (Status p), Sleep 0.5]\<rparr>"
  have a: "a < m" and sa: "Suc a < max_retries lg" using Suc.prems by auto
  have t0: "transient (send_json ws (calls lg))" using Suc.prems(4) by force
  have s0: "\<not> sleep_cancelled ws (calls lg + 1)"
    using Suc.prems(5) by (force simp: pauses_complete_def)
  have step: "retry_loop [a..<m] p lg = retry_loop [Suc a..<m] p ?lg1"
    using retry_step_transient [OF Suc.prems(1) t0 sa s0] a by (simp add: upt_conv_Cons)
  have rest: "\<forall>j<k. transient (send_json ws (calls ?lg1 + j))"
  proof (intro allI impI)
    fix j assume "j < k"
    then have "Suc j < Suc k" by simp
    with Suc.prems(4) have "transient (send_json ws (calls lg + Suc j))" by blast
    then show "transient (send_json ws (calls ?lg1 + j))" by simp
  qed
  have pauses: "pauses_complete ws ?lg1 k"
    unfolding pauses_complete_def
  proof (intro allI impI)
    fix j assume "j < k"
    then have "Suc j < Suc k" by simp
    with Suc.prems(5) have "\<not> sleep_cancelled ws (calls lg + Suc j + 1)"
      unfolding pauses_complete_def by blast
    then show "\<not> sleep_cancelled ws (calls ?lg1 + j + 1)" by simp
  qed
  have "retry_loop [Suc a..<m] p ?lg1 =
     retry_loop [Suc a + k..<m] p
       (?lg1\<lparr>calls := calls ?lg1 + k,
           trace := trace ?lg1 @ concat (replicate k [Send_json (Status p), Sleep 0.5])\<rparr>)"
    using Suc.prems by (intro Suc.IH rest pauses) auto
  with step show ?case by simp
qed

text \<open>The three ways in which a retry cycle ends without being cancelled.\<close>

lemma cycle_permanent:
  assumes "socket lg = Some ws" and "k < max_retries lg"
    and "\<forall>j<k. transient (send_json ws (calls lg + j))"
    and "pauses_complete ws lg k"
    and "permanent (send_json ws (calls lg + k))"
  shows "retry_loop [0..<max_retries lg] p lg =
     (Inr (), mark_failed (lg\<lparr>calls := calls lg + k + 1, trace := trace lg @ cycle k p\<rparr>))"
proof -
  let ?m = "max_retries lg"
  let ?lg = "lg\<lparr>calls := calls lg + k,
      trace := trace lg @ concat (replicate k [Send_json (Status p), Sleep 0.5])\<rparr>"
  have km: "0 + k < ?m" using assms(2) by simp
  have "retry_loop [0..<?m] p lg = retry_loop [0 + k..<?m] p ?lg"
    using assms(1) refl km assms(3,4) by (rule retry_loop_transient_prefix)
  also have "\<dots> = retry_loop (k # [Suc k..<?m]) p ?lg"
    using assms(2) by (simp add: upt_conv_Cons)
  also have "\<dots> = (Inr (), mark_failed (?lg\<lparr>calls := calls ?lg + 1,
      trace := trace ?lg @ [Send_json (Status p)]\<rparr>))"
    by (rule retry_step_permanent [where ws = ws]) (use assms in simp_all)
  finally show ?thesis by (simp add: cycle_def)
qed

lemma cycle_sent:
  assumes "socket lg = Some ws" and "k < max_retries lg"
    and "\<forall>j<k. transient (send_json ws (calls lg + j))"
    and "pauses_complete ws lg k"
    and "send_json ws (calls lg + k) = Sent"
  shows "retry_loop [0..<max_retries lg] p lg =
     (Inr (), lg\<lparr>calls := calls lg + k + 1, trace := trace lg @ cycle k p\<rparr>)"
proof -
  let ?m = "max_retries lg"
  let ?lg = "lg\<lparr>calls := calls lg + k,
      trace := trace lg @ concat (replicate k [Send_json (Status p), Sleep 0.5])\<rparr>"
  have km: "0 + k < ?m" using assms(2) by simp
  have "retry_loop [0..<?m] p lg = retry_loop [0 + k..<?m] p ?lg"
    using assms(1) refl km assms(3,4) by (rule retry_loop_transient_prefix)
  also have "\<dots> = retry_loop (k # [Suc k..<?m]) p ?lg"
    using assms(2) by (simp add: upt_conv_Cons)
  also have "\<dots> = (Inr (), ?lg\<lparr>calls := calls ?lg + 1,
      trace := trace ?lg @ [Send_json (Status p)]\<rparr>)"
    by (rule retry_step_sent [where ws = ws]) (use assms in simp_all)
  finally show ?thesis by (simp add: cycle_def)
qed

lemma cycle_exhausted:
  assumes "socket lg = Some ws" and "max_retries lg = Suc k"
    and "\<forall>j<Suc k. transient (send_json ws (calls lg + j))"
    and "pauses_complete ws lg k"
  shows "retry_loop [0..<max_retries lg] p lg =
     (Inr (), mark_failed (lg\<lparr>calls := calls lg + k + 1, trace := trace lg @ cycle k p\<rparr>))"
proof -
  let ?m = "max_retries lg"
  let ?lg = "lg\<lparr>calls := calls lg + k,
      trace := trace lg @ concat (replicate k [Send_json (Status p), Sleep 0.5])\<rparr>"
  have pre: "\<forall>j<k. transient (send_json ws (calls lg + j))" using assms(3) by simp
  have km: "0 + k < ?m" using assms(2) by simp
  have "retry_loop [0..<?m] p lg = retry_loop [0 + k..<?m] p ?lg"
    using assms(1) refl km pre assms(4) by (rule retry_loop_transient_prefix)
  also have "\<dots> = retry_loop (k # []) p ?lg"
    using assms(2) by simp
  also have "\<dots> = (Inr (), mark_failed (?lg\<lparr>calls := calls ?lg + 1,
      trace := trace ?lg @ [Send_json (Status p)]\<rparr>))"
    by (rule retry_step_last [where ws = ws]) (use assms in simp_all)
  finally show ?thesis by (simp add: cycle_def)
qed

lemma send_report_healthy:
  assumes "socket lg = Some ws" and "\<not> websocket_failed lg"
  shows "send_report lg fid status message took =
     retry_loop [0..<max_retries lg]
       \<lparr>report_fileID = fid, report_status = status, report_message = message,
        report_took = took\<rparr> lg"
  using assms by (simp add: send_report_def try_send_with_retry_def Let_def)

lemma send_report_raises_only_cancelled:
  "fst (send_report lg fid status message took) = Inr ()
   \<or> fst (send_report lg fid status message took) = Inl CancelledError"
  by (simp add: send_report_def try_send_with_retry_def Let_def retry_loop_raises_only_cancelled)

lemma send_report_never_raises:
  assumes "\<forall>ws. socket lg = Some ws \<longrightarrow> never_cancelled ws"
  shows "fst (send_report lg fid status message took) = Inr ()"
proof -
  have "fst (retry_loop as p (lg\<lparr>websocket_failed := False, error_logged := False\<rparr>)) = Inr ()"
    for as p
    by (rule retry_loop_never_raises) (use assms in simp)
  moreover have "fst (retry_loop as p lg) = Inr ()" for as p
    using assms by (rule retry_loop_never_raises)
  ultimately show ?thesis
    by (simp add: send_report_def try_send_with_retry_def Let_def)
qed

text \<open>
  One cycle on a healthy logger with a socket: it makes at least one call and at most
  one per attempt that is left, and it leaves the flag set exactly when it ended,
  without being cancelled, on a call that raised.
\<close>

lemma retry_loop_cycle_bounds:
  assumes "socket lg = Some ws" and "\<not> websocket_failed lg" and "a < max_retries lg"
  shows "calls lg < calls (snd (retry_loop [a..<max_retries lg] p lg))
       \<and> calls (snd (retry_loop [a..<max_retries lg] p lg)) \<le> calls lg + (max_retries lg - a)
       \<and> (websocket_failed (snd (retry_loop [a..<max_retries lg] p lg)) \<longleftrightarrow>
            fst (retry_loop [a..<max_retries lg] p lg) = Inr ()
            \<and> send_json ws (calls (snd (retry_loop [a..<max_retries lg] p lg)) - 1) \<noteq> Sent)"
  using assms
proof (induction n \<equiv> "max_retries lg - a" arbitrary: a lg)
  case 0
  then show ?case by simp
next
  case (Suc n)
  let ?m = "max_retries lg"
  let ?sent = "lg\<lparr>calls := calls lg + 1, trace := trace lg @ [Send_json (Status p)]\<rparr>"
  have unfold: "[a..<?m] = a # [Suc a..<?m]" using Suc.prems(3) by (simp add: upt_conv_Cons)
  show ?case
  proof (cases "send_json ws (calls lg)")
    case Sent
    have "retry_loop [a..<?m] p lg = (Inr (), ?sent)"
      unfolding unfold using Suc.prems(1) Sent by (rule retry_step_sent)
    with Sent Suc.prems show ?thesis by simp
  next
    case Cancelled
    have "retry_loop [a..<?m] p lg = (Inl CancelledError, ?sent)"
      unfolding unfold using Suc.prems(1) Cancelled by (rule retry_step_send_cancelled)
    with Cancelled Suc.prems show ?thesis by simp
  next
    case (Raised e)
    show ?thesis
    proof (cases "is_permanent e")
      case True
      with Raised have "permanent (send_json ws (calls lg))" by simp
      then have "retry_loop [a..<?m] p lg = (Inr (), mark_failed ?sent)"
        unfolding unfold by (rule retry_step_permanent [OF Suc.prems(1)])
      with Raised Suc.prems show ?thesis by (simp add: mark_failed_def)
    next
      case False
      with Raised have tr: "transient (send_json ws (calls lg))" by simp
      show ?thesis
      proof (cases "Suc a < ?m")
        case False
        then have "retry_loop [a..<?m] p lg = (Inr (), mark_failed ?sent)"
          unfolding unfold by (rule retry_step_last [OF Suc.prems(1) tr])
        with Raised Suc.prems show ?thesis by (simp add: mark_failed_def)
      next
        case True
        let ?lg1 = "lg\<lparr>calls := calls lg + 1,
            trace := trace lg @ [Send_json (Status p), Sleep 0.5]\<rparr>"
        show ?thesis
        proof (cases "sleep_cancelled ws (calls lg + 1)")
          case c: True
          have "retry_loop [a..<?m] p lg = (Inl CancelledError, ?lg1)"
            unfolding unfold using Suc.prems(1) tr True c by (rule retry_step_pause_cancelled)
          with Suc.prems True show ?thesis by simp
        next
          case c: False
          have "retry_loop (a # [Suc a..<?m]) p lg = retry_loop [Suc a..<?m] p ?lg1"
            using Suc.prems(1) tr True c by (rule retry_step_transient)
          then have step: "retry_loop [a..<?m] p lg = retry_loop [Suc a..<max_retries ?lg1] p ?lg1"
            using unfold by simp
          have n: "n = max_retries ?lg1 - Suc a" using Suc.hyps(2) by simp
          have ih: "calls ?lg1 < calls (snd (retry_loop [Suc a..<max_retries ?lg1] p ?lg1))
             \<and> calls (snd (retry_loop [Suc a..<max_retries ?lg1] p ?lg1))
                 \<le> calls ?lg1 + (max_retries ?lg1 - Suc a)
             \<and> (websocket_failed (snd (retry_loop [Suc a..<max_retries ?lg1] p ?lg1)) \<longleftrightarrow>
                  fst (retry_loop [Suc a..<max_retries ?lg1] p ?lg1) = Inr ()
                  \<and> send_json ws (calls (snd (retry_loop [Suc a..<max_retries ?lg1] p ?lg1)) - 1)
                    \<noteq> Sent)"
            by (rule Suc.hyps(1) [OF n]) (use Suc.prems True in simp_all)
          from ih True show ?thesis unfolding step by auto
        qed
      qed
    qed
  qed
qed

subsection \<open>Two messages and their classification\<close>

lemma not_permanent_timed_out: "\<not> is_permanent ''timed out''"
  by (simp add: is_permanent_def permanent_phrases_def lower_def lower_char_def dquote_def)

lemma permanent_not_connected: "is_permanent not_connected_message"
  by (simp add: not_connected_message_def is_permanent_def permanent_phrases_def lower_def
      lower_char_def dquote_def)

subsection \<open>The failed flag and the socket\<close>

lemma failed_has_socket_init: "failed_has_socket (LoggerManager_init sock)"
  by (simp add: failed_has_socket_def LoggerManager_init_def)

lemma failed_has_socket_send_report:
  "failed_has_socket lg \<Longrightarrow> failed_has_socket (snd (send_report lg fid status message took))"
  by (auto simp: send_report_def try_send_with_retry_def Let_def failed_has_socket_def
      retry_loop_socket)

lemma failed_has_socket_send_heartbeat:
  "failed_has_socket lg \<Longrightarrow> failed_has_socket (snd (send_heartbeat lg fid message))"
  by (auto simp: send_heartbeat_def failed_has_socket_def socket_send_json_def
      split: prod.splits send_result.splits option.splits)

lemma failed_has_socket_create_new_document:
  "failed_has_socket lg \<Longrightarrow> failed_has_socket (snd (create_new_document lg a b c))"
  by (auto simp: create_new_document_def failed_has_socket_def socket_send_json_def
      mark_failed_def split: prod.splits send_result.splits option.splits)

subsection \<open>The retry policy\<close>

text \<open>
  C8, as stated, fails: \<open>send_report\<close> can raise to its caller. The handler of
  \<open>_try_send_with_retry\<close> is \<open>except Exception\<close>, which does not catch
  \<open>asyncio.CancelledError\<close>, and the pause between two attempts stands inside that
  handler, unguarded. When the task is cancelled during the first send, or during the
  pause after a send that timed out, \<open>CancelledError\<close> leaves \<open>send_report\<close>.
\<close>

theorem C8_counterexample_cancellation_leaves_send_report:
  "fst (send_report (LoggerManager_init (Some cancelled_in_send)) ''f1'' PROCESSING ''Loading'' 0)
     = Inl CancelledError
   \<and> fst (send_report (LoggerManager_init (Some cancelled_in_pause)) ''f1'' PROCESSING
        ''Loading'' 0)
     = Inl CancelledError"
  by (simp add: send_report_def try_send_with_retry_def LoggerManager_init_def
      cancelled_in_send_def cancelled_in_pause_def socket_send_json_def asyncio_sleep_def
      not_permanent_timed_out upt_conv_Cons)

text \<open>
  C8, amended. \<open>send_report\<close> raises nothing but the cancellation of its task: where the
  task is never cancelled it returns normally, whatever the socket does and whatever
  the state of the logger, and in no case does another exception leave it. For a
  logger with a socket, not marked failed, with the three attempts of \<open>__init__\<close>, one
  send whose pauses are not cancelled makes calls of \<open>send_json\<close> until one of three
  things happens. (1) A call raises an exception with a permanent phrase, after \<open>k\<close>
  retried failures: \<open>websocket_failed\<close> is set at once, \<open>k + 1\<close> calls were made and no
  further one is. (2) All three calls raise without a permanent phrase:
  \<open>websocket_failed\<close> is set after the third call. (3) A call returns, after \<open>k\<close>
  retried failures: the flag is untouched. In every case the trace is \<open>cycle k\<close>: a
  pause of exactly 0.5 seconds between two consecutive calls, and none after the last.
\<close>

theorem C8_send_raises_only_cancellation_and_retry_policy:
  "((\<forall>ws'. socket lg = Some ws' \<longrightarrow> never_cancelled ws') \<longrightarrow>
      fst (send_report lg fid status message took) = Inr ())
   \<and> (fst (send_report lg fid status message took) = Inr ()
       \<or> fst (send_report lg fid status message took) = Inl CancelledError)
   \<and> (socket lg = Some ws \<and> \<not> websocket_failed lg \<and> max_retries lg = 3 \<longrightarrow>
        (\<forall>k<3. (\<forall>j<k. transient (send_json ws (calls lg + j)))
                \<and> pauses_complete ws lg k
                \<and> permanent (send_json ws (calls lg + k)) \<longrightarrow>
           send_report lg fid status message took =
             (Inr (),
              lg\<lparr>calls := calls lg + k + 1,
                 trace := trace lg @ cycle k \<lparr>report_fileID = fid, report_status = status,
                   report_message = message, report_took = took\<rparr>,
                 websocket_failed := True, error_logged := True\<rparr>))
      \<and> ((\<forall>j<3. transient (send_json ws (calls lg + j))) \<and> pauses_complete ws lg 2 \<longrightarrow>
           send_report lg fid status message took =
             (Inr (),
              lg\<lparr>calls := calls lg + 3,
                 trace := trace lg @ cycle 2 \<lparr>report_fileID = fid, report_status = status,
                   report_message = message, report_took = took\<rparr>,
                 websocket_failed := True, error_logged := True\<rparr>))
      \<and> (\<forall>k<3. (\<forall>j<k. transient (send_json ws (calls lg + j)))
                \<and> pauses_complete ws lg k
                \<and> send_json ws (calls lg + k) = Sent \<longrightarrow>
           send_report lg fid status message took =
             (Inr (),
              lg\<lparr>calls := calls lg + k + 1,
                 trace := trace lg @ cycle k \<lparr>report_fileID = fid, report_status = status,
                   report_message = message, report_took = took\<rparr>,
                 websocket_failed := False\<rparr>)))"
proof -
  let ?p = "\<lparr>report_fileID = fid, report_status = status, report_message = message,
      report_took = took\<rparr>"
  have never: "fst (send_report lg fid status message took) = Inr ()"
    if "\<forall>ws'. socket lg = Some ws' \<longrightarrow> never_cancelled ws'"
    using that by (rule send_report_never_raises)
  have only: "fst (send_report lg fid status message took) = Inr ()
       \<or> fst (send_report lg fid status message took) = Inl CancelledError"
    by (rule send_report_raises_only_cancelled)
  have cases: "(\<forall>k<3. (\<forall>j<k. transient (send_json ws (calls lg + j)))
                \<and> pauses_complete ws lg k
                \<and> permanent (send_json ws (calls lg + k)) \<longrightarrow>
           send_report lg fid status message took =
             (Inr (), lg\<lparr>calls := calls lg + k + 1, trace := trace lg @ cycle k ?p,
                        websocket_failed := True, error_logged := True\<rparr>))
      \<and> ((\<forall>j<3. transient (send_json ws (calls lg + j))) \<and> pauses_complete ws lg 2 \<longrightarrow>
           send_report lg fid status message took =
             (Inr (), lg\<lparr>calls := calls lg + 3, trace := trace lg @ cycle 2 ?p,
                        websocket_failed := True, error_logged := True\<rparr>))
      \<and> (\<forall>k<3. (\<forall>j<k. transient (send_json ws (calls lg + j)))
                \<and> pauses_complete ws lg k
                \<and> send_json ws (calls lg + k) = Sent \<longrightarrow>
           send_report lg fid status message took =
             (Inr (), lg\<lparr>calls := calls lg + k + 1, trace := trace lg @ cycle k ?p,
                        websocket_failed := False\<rparr>))"
    if s: "socket lg = Some ws" and nf: "\<not> websocket_failed lg" and m: "max_retries lg = 3"
  proof -
    have eq: "send_report lg fid status message took = retry_loop [0..<max_retries lg] ?p lg"
      using s nf by (rule send_report_healthy)
    have a: "send_report lg fid status message took =
             (Inr (), lg\<lparr>calls := calls lg + k + 1, trace := trace lg @ cycle k ?p,
                        websocket_failed := True, error_logged := True\<rparr>)"
      if "k < 3" and "\<forall>j<k. transient (send_json ws (calls lg + j))"
        and "pauses_complete ws lg k" and "permanent (send_json ws (calls lg + k))" for k
    proof -
      have km: "k < max_retries lg" using that(1) m by simp
      have "retry_loop [0..<max_retries lg] ?p lg =
          (Inr (), mark_failed (lg\<lparr>calls := calls lg + k + 1, trace := trace lg @ cycle k ?p\<rparr>))"
        using s km that(2,3,4) by (rule cycle_permanent)
      then show ?thesis unfolding eq by (simp add: mark_failed_def)
    qed
    have b: "send_report lg fid status message took =
             (Inr (), lg\<lparr>calls := calls lg + 3, trace := trace lg @ cycle 2 ?p,
                        websocket_failed := True, error_logged := True\<rparr>)"
      if "\<forall>j<3. transient (send_json ws (calls lg + j))" and "pauses_complete ws lg 2"
    proof -
      have m2: "max_retries lg = Suc 2" using m by simp
      have t: "\<forall>j<Suc 2. transient (send_json ws (calls lg + j))" using that(1) by simp
      have "retry_loop [0..<max_retries lg] ?p lg =
          (Inr (), mark_failed (lg\<lparr>calls := calls lg + 2 + 1, trace := trace lg @ cycle 2 ?p\<rparr>))"
        using s m2 t that(2) by (rule cycle_exhausted)
      moreover have "calls lg + 2 + 1 = calls lg + 3" by simp
      ultimately show ?thesis unfolding eq by (simp add: mark_failed_def)
    qed
    have c: "send_report lg fid status message took =
             (Inr (), lg\<lparr>calls := calls lg + k + 1, trace := trace lg @ cycle k ?p,
                        websocket_failed := False\<rparr>)"
      if "k < 3" and "\<forall>j<k. transient (send_json ws (calls lg + j))"
        and "pauses_complete ws lg k" and "send_json ws (calls lg + k) = Sent" for k
    proof -
      have km: "k < max_retries lg" using that(1) m by simp
      have "retry_loop [0..<max_retries lg] ?p lg =
          (Inr (), lg\<lparr>calls := calls lg + k + 1, trace := trace lg @ cycle k ?p\<rparr>)"
        using s km that(2,3,4) by (rule cycle_sent)
      moreover have "lg\<lparr>calls := calls lg + k + 1, trace := trace lg @ cycle k ?p,
                        websocket_failed := False\<rparr> =
          lg\<lparr>calls := calls lg + k + 1, trace := trace lg @ cycle k ?p\<rparr>"
        using nf by simp
      ultimately show ?thesis unfolding eq by simp
    qed
    from a b c show ?thesis by blast
  qed
  from never only cases show ?thesis by blast
qed

lemma flaky_never_cancelled: "never_cancelled flaky_socket"
  by (simp add: never_cancelled_def flaky_socket_def)

lemma closed_never_cancelled: "never_cancelled closed_socket"
  by (simp add: never_cancelled_def closed_socket_def)

text \<open>
  Witness of C8, amended. On a connection where every send times out, a new logger
  makes three calls with two pauses of 0.5 seconds and is then marked failed; on a
  closed connection it makes one call, no pause, and is marked failed; and on neither
  does anything leave \<open>send_report\<close>.
\<close>

theorem C8_retry_policy_witness:
  "send_report (LoggerManager_init (Some flaky_socket)) ''f1'' PROCESSING ''Loading'' 0
     = (Inr (),
        (LoggerManager_init (Some flaky_socket))
         \<lparr>calls := 3,
          trace := cycle 2 \<lparr>report_fileID = ''f1'', report_status = PROCESSING,
                           report_message = ''Loading'', report_took = 0\<rparr>,
          websocket_failed := True, error_logged := True\<rparr>)
   \<and> send_report (LoggerManager_init (Some closed_socket)) ''f1'' PROCESSING ''Loading'' 0
     = (Inr (),
        (LoggerManager_init (Some closed_socket))
         \<lparr>calls := 1,
          trace := cycle 0 \<lparr>report_fileID = ''f1'', report_status = PROCESSING,
                           report_message = ''Loading'', report_took = 0\<rparr>,
          websocket_failed := True, error_logged := True\<rparr>)
   \<and> fst (send_report (LoggerManager_init (Some closed_socket)) ''f1'' DONE ''ok'' 1) = Inr ()"
proof -
  let ?lg = "LoggerManager_init (Some flaky_socket)"
  let ?lc = "LoggerManager_init (Some closed_socket)"
  let ?p = "\<lparr>report_fileID = ''f1'', report_status = PROCESSING,
                           report_message = ''Loading'', report_took = 0\<rparr>"
  have h: "socket ?lg = Some flaky_socket \<and> \<not> websocket_failed ?lg \<and> max_retries ?lg = 3"
    by (simp add: LoggerManager_init_def)
  have t: "(\<forall>j<3. transient (send_json flaky_socket (calls ?lg + j)))
      \<and> pauses_complete flaky_socket ?lg 2"
    by (simp add: flaky_socket_def not_permanent_timed_out pauses_complete_def)
  have c: "calls ?lg + 3 = 3" and tr: "trace ?lg @ cycle 2 ?p = cycle 2 ?p"
    by (simp_all add: LoggerManager_init_def)
  from C8_send_raises_only_cancellation_and_retry_policy
    [where lg = ?lg and ws = flaky_socket and fid = "''f1''" and status = PROCESSING
      and message = "''Loading''" and took = 0] h t
  have "send_report ?lg ''f1'' PROCESSING ''Loading'' 0 =
      (Inr (), ?lg\<lparr>calls := calls ?lg + 3, trace := trace ?lg @ cycle 2 ?p,
                  websocket_failed := True, error_logged := True\<rparr>)"
    by blast
  then have a: "send_report ?lg ''f1'' PROCESSING ''Loading'' 0 =
      (Inr (), ?lg\<lparr>calls := 3, trace := cycle 2 ?p,
                  websocket_failed := True, error_logged := True\<rparr>)"
    by (simp only: c tr)
  have hc: "socket ?lc = Some closed_socket \<and> \<not> websocket_failed ?lc \<and> max_retries ?lc = 3"
    by (simp add: LoggerManager_init_def)
  have k0: "(0::nat) < 3" by simp
  have tc: "(\<forall>j<0::nat. transient (send_json closed_socket (calls ?lc + j)))
      \<and> pauses_complete closed_socket ?lc 0
      \<and> permanent (send_json closed_socket (calls ?lc + 0))"
    by (simp add: closed_socket_def permanent_not_connected pauses_complete_def)
  have cc: "calls ?lc + 0 + 1 = 1" and trc: "trace ?lc @ cycle 0 ?p = cycle 0 ?p"
    by (simp_all add: LoggerManager_init_def)
  from C8_send_raises_only_cancellation_and_retry_policy
    [where lg = ?lc and ws = closed_socket and fid = "''f1''" and status = PROCESSING
      and message = "''Loading''" and took = 0] hc k0 tc
  have "send_report ?lc ''f1'' PROCESSING ''Loading'' 0 =
      (Inr (), ?lc\<lparr>calls := calls ?lc + 0 + 1, trace := trace ?lc @ cycle 0 ?p,
                  websocket_failed := True, error_logged := True\<rparr>)"
    by blast
  then have b: "send_report ?lc ''f1'' PROCESSING ''Loading'' 0 =
      (Inr (), ?lc\<lparr>calls := 1, trace := cycle 0 ?p,
                  websocket_failed := True, error_logged := True\<rparr>)"
    by (simp only: cc trc)
  have nc: "\<forall>ws'. socket ?lc = Some ws' \<longrightarrow> never_cancelled ws'"
    by (simp add: LoggerManager_init_def closed_never_cancelled)
  from C8_send_raises_only_cancellation_and_retry_policy
    [where lg = ?lc and ws = closed_socket and fid = "''f1''" and status = DONE
      and message = "''ok''" and took = 1] nc
  have d: "fst (send_report ?lc ''f1'' DONE ''ok'' 1) = Inr ()"
    by blast
  from a b d show ?thesis by simp
qed

subsection \<open>A reporter that is marked failed\<close>

text \<open>
  C7. On a logger that is marked failed (it then has a socket, see
  \<open>failed_has_socket\<close>): a PROCESSING report and a heartbeat are dropped, the logger is
  exactly as before (no call, no pause, the flag still set); a DONE or ERROR report
  clears the flag once and runs one retry cycle from its first attempt on the cleared
  logger. With at least one attempt allowed, that cycle makes at least one and at most
  \<open>max_retries\<close> calls, and the flag afterwards is decided by that cycle alone: it is
  set again exactly when the cycle ended on a call that raised (and was not cut short
  by the cancellation of the task, which leaves the flag cleared).
\<close>

theorem C7_failed_reporter_drops_processing_resets_on_terminal:
  assumes "websocket_failed lg" and "socket lg = Some ws"
  shows "send_report lg fid PROCESSING message took = (Inr (), lg)
    \<and> send_heartbeat lg fid message = (Inr (), lg)
    \<and> (status = DONE \<or> status = ERROR \<longrightarrow>
         send_report lg fid status message took =
           try_send_with_retry (lg\<lparr>websocket_failed := False, error_logged := False\<rparr>)
             fid status message took
         \<and> (0 < max_retries lg \<longrightarrow>
              calls lg < calls (snd (send_report lg fid status message took))
            \<and> calls (snd (send_report lg fid status message took)) \<le> calls lg + max_retries lg
            \<and> (websocket_failed (snd (send_report lg fid status message took)) \<longleftrightarrow>
                 fst (send_report lg fid status message took) = Inr ()
                 \<and> send_json ws (calls (snd (send_report lg fid status message took)) - 1)
                   \<noteq> Sent)))"
proof (intro conjI impI)
  show "send_report lg fid PROCESSING message took = (Inr (), lg)"
    using assms by (simp add: send_report_def)
  show "send_heartbeat lg fid message = (Inr (), lg)"
    using assms by (simp add: send_heartbeat_def)
next
  assume st: "status = DONE \<or> status = ERROR"
  let ?lg = "lg\<lparr>websocket_failed := False, error_logged := False\<rparr>"
  show eq: "send_report lg fid status message took =
      try_send_with_retry ?lg fid status message took"
    using assms st by (auto simp: send_report_def Let_def)
  assume m: "0 < max_retries lg"
  let ?p = "\<lparr>report_fileID = fid, report_status = status, report_message = message,
      report_took = took\<rparr>"
  have b: "calls ?lg < calls (snd (retry_loop [0..<max_retries ?lg] ?p ?lg))
       \<and> calls (snd (retry_loop [0..<max_retries ?lg] ?p ?lg)) \<le> calls ?lg + (max_retries ?lg - 0)
       \<and> (websocket_failed (snd (retry_loop [0..<max_retries ?lg] ?p ?lg)) \<longleftrightarrow>
            fst (retry_loop [0..<max_retries ?lg] ?p ?lg) = Inr ()
            \<and> send_json ws (calls (snd (retry_loop [0..<max_retries ?lg] ?p ?lg)) - 1) \<noteq> Sent)"
    by (rule retry_loop_cycle_bounds) (use assms m in simp_all)
  have r: "send_report lg fid status message took = retry_loop [0..<max_retries ?lg] ?p ?lg"
    unfolding eq by (simp add: try_send_with_retry_def)
  from b show "calls lg < calls (snd (send_report lg fid status message took))"
    unfolding r by simp
  from b show "calls (snd (send_report lg fid status message took)) \<le> calls lg + max_retries lg"
    unfolding r by simp
  from b show "websocket_failed (snd (send_report lg fid status message took)) \<longleftrightarrow>
      fst (send_report lg fid status message took) = Inr ()
      \<and> send_json ws (calls (snd (send_report lg fid status message took)) - 1) \<noteq> Sent"
    unfolding r by simp
qed

text \<open>
  Witness of C7: the logger that gave up after three timeouts drops a PROCESSING report
  and a heartbeat; the DONE report is sent on the connection, which has recovered, and
  leaves the logger healthy.
\<close>

theorem C7_failed_reporter_witness:
  "send_report failed_logger ''f1'' PROCESSING ''Loading'' 0 = (Inr (), failed_logger)
   \<and> send_heartbeat failed_logger ''f1'' ''Processing...'' = (Inr (), failed_logger)
   \<and> send_report failed_logger ''f1'' DONE ''ok'' 1 =
       try_send_with_retry (failed_logger\<lparr>websocket_failed := False, error_logged := False\<rparr>)
         ''f1'' DONE ''ok'' 1
   \<and> \<not> websocket_failed (snd (send_report failed_logger ''f1'' DONE ''ok'' 1))"
proof -
  let ?r = "snd (send_report failed_logger ''f1'' DONE ''ok'' 1)"
  have h1: "websocket_failed failed_logger" by (simp add: failed_logger_def)
  have h2: "socket failed_logger = Some recovering_socket" by (simp add: failed_logger_def)
  have st: "DONE = DONE \<or> DONE = ERROR" by simp
  have m: "0 < max_retries failed_logger" by (simp add: failed_logger_def)
  note c7 = C7_failed_reporter_drops_processing_resets_on_terminal [OF h1 h2, where fid = "''f1''" and status = DONE and took = 1]
  from C7_failed_reporter_drops_processing_resets_on_terminal [OF h1 h2, where fid = "''f1''" and status = DONE and took = 0 and message = "''Loading''"]
  have a: "send_report failed_logger ''f1'' PROCESSING ''Loading'' 0 = (Inr (), failed_logger)"
    by blast
  from c7 [where message = "''Processing...''"]
  have b: "send_heartbeat failed_logger ''f1'' ''Processing...'' = (Inr (), failed_logger)"
    by blast
  from c7 [where message = "''ok''"] st m
  have c: "send_report failed_logger ''f1'' DONE ''ok'' 1 =
       try_send_with_retry (failed_logger\<lparr>websocket_failed := False, error_logged := False\<rparr>)
         ''f1'' DONE ''ok'' 1"
    and lo: "calls failed_logger < calls ?r"
    and fl: "websocket_failed ?r \<longleftrightarrow>
        fst (send_report failed_logger ''f1'' DONE ''ok'' 1) = Inr ()
        \<and> send_json recovering_socket (calls ?r - 1) \<noteq> Sent"
    by blast+
  from lo have "\<not> calls ?r - 1 < 3" by (simp add: failed_logger_def)
  then have "send_json recovering_socket (calls ?r - 1) = Sent"
    by (simp add: recovering_socket_def)
  with fl have d: "\<not> websocket_failed ?r" by simp
  from a b c d show ?thesis by simp
qed

subsection \<open>The heartbeat\<close>

text \<open>
  C10. When a heartbeat is sent on a healthy, connected logger and the single
  \<open>send_json\<close> call raises (whatever the exception, also one that \<open>send_report\<close> would
  retry), the logger is marked failed at once: exactly one call was made, no pause and
  no second attempt. From then on a PROCESSING report and a further heartbeat are
  dropped and leave the logger as it is, until a DONE or ERROR report clears the flag
  and runs its retry cycle.
\<close>

theorem C10_heartbeat_failure_marks_failed_without_retry:
  assumes "socket lg = Some ws" and "\<not> websocket_failed lg"
    and "is_websocket_connected lg" and "send_json ws (calls lg) = Raised e"
  shows "send_heartbeat lg fid message =
       (Inr (), lg\<lparr>calls := calls lg + 1,
                    trace := trace lg @
                      [Send_json (Status \<lparr>report_fileID = fid, report_status = PROCESSING,
                                          report_message = message, report_took = 0\<rparr>)],
                    websocket_failed := True\<rparr>)
    \<and> send_report (snd (send_heartbeat lg fid message)) fid' PROCESSING message' took =
        (Inr (), snd (send_heartbeat lg fid message))
    \<and> send_heartbeat (snd (send_heartbeat lg fid message)) fid' message' =
        (Inr (), snd (send_heartbeat lg fid message))
    \<and> (status = DONE \<or> status = ERROR \<longrightarrow>
        send_report (snd (send_heartbeat lg fid message)) fid' status message' took =
          try_send_with_retry
            ((snd (send_heartbeat lg fid message))
               \<lparr>websocket_failed := False, error_logged := False\<rparr>)
            fid' status message' took)"
proof -
  let ?lg = "lg\<lparr>calls := calls lg + 1,
                    trace := trace lg @
                      [Send_json (Status \<lparr>report_fileID = fid, report_status = PROCESSING,
                                          report_message = message, report_took = 0\<rparr>)],
                    websocket_failed := True\<rparr>"
  have hb: "send_heartbeat lg fid message = (Inr (), ?lg)"
    using assms by (simp add: send_heartbeat_def socket_send_json_def)
  have f: "websocket_failed ?lg" and s: "socket ?lg = Some ws" using assms(1) by simp_all
  have a: "send_report ?lg fid' PROCESSING message' took = (Inr (), ?lg)"
    using f by (simp add: send_report_def)
  have b: "send_heartbeat ?lg fid' message' = (Inr (), ?lg)"
    using f by (simp add: send_heartbeat_def)
  have c: "send_report ?lg fid' status message' took =
          try_send_with_retry (?lg\<lparr>websocket_failed := False, error_logged := False\<rparr>)
            fid' status message' took"
    if "status = DONE \<or> status = ERROR"
    using that f s by (auto simp: send_report_def Let_def)
  from a b c show ?thesis unfolding hb snd_conv by blast
qed

text \<open>
  Witness of C10: the first heartbeat on a connection where every send times out.
\<close>

theorem C10_heartbeat_failure_witness:
  "send_heartbeat (LoggerManager_init (Some flaky_socket)) ''f1'' ''Processing...'' =
     (Inr (), (LoggerManager_init (Some flaky_socket))
        \<lparr>calls := 1,
         trace := [Send_json (Status \<lparr>report_fileID = ''f1'', report_status = PROCESSING,
                     report_message = ''Processing...'', report_took = 0\<rparr>)],
         websocket_failed := True\<rparr>)
   \<and> send_report (snd (send_heartbeat (LoggerManager_init (Some flaky_socket)) ''f1''
          ''Processing...'')) ''f1'' PROCESSING ''Loading'' 2 =
       (Inr (), snd (send_heartbeat (LoggerManager_init (Some flaky_socket)) ''f1''
          ''Processing...''))"
proof -
  let ?lg = "LoggerManager_init (Some flaky_socket)"
  have h1: "socket ?lg = Some flaky_socket" by (simp add: LoggerManager_init_def)
  have h2: "\<not> websocket_failed ?lg" by (simp add: LoggerManager_init_def)
  have h3: "is_websocket_connected ?lg"
    by (simp add: is_websocket_connected_def LoggerManager_init_def flaky_socket_def)
  have h4: "send_json flaky_socket (calls ?lg) = Raised ''timed out''"
    by (simp add: flaky_socket_def)
  let ?p = "\<lparr>report_fileID = ''f1'', report_status = PROCESSING,
                     report_message = ''Processing...'', report_took = 0\<rparr>"
  from C10_heartbeat_failure_marks_failed_without_retry [OF h1 h2 h3 h4, where fid = "''f1''" and message = "''Processing...''"
      and fid' = "''f1''" and message' = "''Loading''" and took = 2 and status = DONE]
  have a: "send_heartbeat ?lg ''f1'' ''Processing...'' =
       (Inr (), ?lg\<lparr>calls := calls ?lg + 1, trace := trace ?lg @ [Send_json (Status ?p)],
                    websocket_failed := True\<rparr>)"
    and b: "send_report (snd (send_heartbeat ?lg ''f1'' ''Processing...'')) ''f1'' PROCESSING
              ''Loading'' 2 = (Inr (), snd (send_heartbeat ?lg ''f1'' ''Processing...''))"
    by blast+
  have c: "calls ?lg + 1 = 1" and t: "trace ?lg @ [Send_json (Status ?p)] = [Send_json (Status ?p)]"
    by (simp_all add: LoggerManager_init_def)
  from a have a': "send_heartbeat ?lg ''f1'' ''Processing...'' =
       (Inr (), ?lg\<lparr>calls := 1, trace := [Send_json (Status ?p)], websocket_failed := True\<rparr>)"
    by (simp only: c t)
  from a' b show ?thesis by (rule conjI)
qed
subsection \<open>The check against the store\<close>



lemma attempt_body_Continue:
  "attempt_body client fileConfig retries attempt = Inr (Continue seconds) \<Longrightarrow>
   int attempt < retries - 1"
  by (auto simp: attempt_body_def retry_or_give_up_def split: sum.splits exn.splits if_splits)




lemma check_loop_raises_only_cancelled:
  "(\<exists>b. fst (check_loop as client fileConfig retries slept) = Inr b)
   \<or> fst (check_loop as client fileConfig retries slept) = Inl CancelledError"
  by (induction as arbitrary: slept)
    (auto simp: is_Exception_def split: sum.splits step.splits)







subsection \<open>Import with verification\<close>

text \<open>
  The check, and with it the verification, leaves by a value or by the cancellation of
  the task; without credentials the verification is the check on the client at hand.
\<close>

lemma check_raises_only_cancelled:
  "(\<exists>b. fst (check_document_in_weaviate_with_retry client fileConfig retries) = Inr b)
   \<or> fst (check_document_in_weaviate_with_retry client fileConfig retries) = Inl CancelledError"
  unfolding check_document_in_weaviate_with_retry_def
  by (rule check_loop_raises_only_cancelled)

lemma verify_document_no_credentials:
  "verify_document g client fileConfig None
   = fst (check_document_in_weaviate_with_retry client fileConfig 3)"
  using check_raises_only_cancelled[of client fileConfig 3]
  by (auto simp: verify_document_def is_Exception_def split: sum.splits)

lemma verify_document_raises_only_cancelled:
  "(\<exists>b. verify_document g client fileConfig credentials = Inr b)
   \<or> verify_document g client fileConfig credentials = Inl CancelledError"
  using check_raises_only_cancelled[of client fileConfig 3]
  by (auto simp: verify_document_def is_Exception_def split: sum.splits option.splits)

text \<open>
  The two ways the function ends once the verification has answered: with the report
  \<open>DONE\<close>, or with the report \<open>ERROR\<close> followed by the \<open>raise\<close>.
\<close>

lemma verify_and_report_found:
  assumes "\<not> commit_pause_cancelled g"
    and "verify_document g client fileConfig credentials = Inr True"
  shows "verify_and_report g client fileConfig logger credentials import_error
         = send_report logger (config_fileID fileConfig) DONE
             (''Import for '' @ filename fileConfig @ '' completed successfully'') (elapsed g)"
proof -
  let ?s = "send_report logger (config_fileID fileConfig) DONE
             (''Import for '' @ filename fileConfig @ '' completed successfully'') (elapsed g)"
  have "fst ?s = Inr () \<or> fst ?s = Inl CancelledError"
    by (rule send_report_raises_only_cancelled)
  then show ?thesis
    using assms
    by (cases ?s) (auto simp: verify_and_report_def is_Exception_def split: sum.splits)
qed

lemma verify_and_report_not_found:
  assumes "\<not> commit_pause_cancelled g"
    and "verify_document g client fileConfig credentials = Inr False"
  shows "snd (verify_and_report g client fileConfig logger credentials import_error)
         = snd (send_report logger (config_fileID fileConfig) ERROR
             (case import_error of Some e \<Rightarrow> ''Import failed: '' @ str_exn e
              | None \<Rightarrow> ''Document not found in Weaviate after import (verification failed)'')
             (elapsed g))
       \<and> fst (verify_and_report g client fileConfig logger credentials import_error)
         = (if fst (send_report logger (config_fileID fileConfig) ERROR
             (case import_error of Some e \<Rightarrow> ''Import failed: '' @ str_exn e
              | None \<Rightarrow> ''Document not found in Weaviate after import (verification failed)'')
             (elapsed g)) = Inr ()
            then Inl (case import_error of Some e \<Rightarrow> e
                      | None \<Rightarrow> Exception ''Document not found in Weaviate after import'')
            else Inl CancelledError)"
proof -
  let ?s = "send_report logger (config_fileID fileConfig) ERROR
             (case import_error of Some e \<Rightarrow> ''Import failed: '' @ str_exn e
              | None \<Rightarrow> ''Document not found in Weaviate after import (verification failed)'')
             (elapsed g)"
  have "fst ?s = Inr () \<or> fst ?s = Inl CancelledError"
    by (rule send_report_raises_only_cancelled)
  then show ?thesis
    using assms
    by (cases ?s) (auto simp: verify_and_report_def is_Exception_def Let_def split: sum.splits)
qed


text \<open>The concrete stores and sockets, evaluated.\<close>

lemma check_exact_match_store:
  "fst (check_document_in_weaviate_with_retry exact_match_store file_A 3) = Inr True"
  by (simp add: check_document_in_weaviate_with_retry_def exact_match_store_def file_A_def
      attempt_body_def upt_conv_Cons)

lemma check_near_match_store:
  "fst (check_document_in_weaviate_with_retry near_match_store file_A 3) = Inr False"
  by (simp add: check_document_in_weaviate_with_retry_def near_match_store_def file_A_def
      attempt_body_def retry_or_give_up_def upt_conv_Cons)

lemma send_report_open_socket:
  "send_report (LoggerManager_init (Some open_socket)) fid status message took =
     (Inr (), (LoggerManager_init (Some open_socket))
        \<lparr>calls := 1,
         trace := [Send_json (Status \<lparr>report_fileID = fid, report_status = status,
                     report_message = message, report_took = took\<rparr>)]\<rparr>)"
  by (simp add: send_report_def try_send_with_retry_def LoggerManager_init_def open_socket_def
      socket_send_json_def upt_conv_Cons Let_def)

lemma send_report_cancelled_in_send:
  "fst (send_report (LoggerManager_init (Some cancelled_in_send)) fid status message took)
   = Inl CancelledError"
  by (simp add: send_report_def try_send_with_retry_def LoggerManager_init_def
      cancelled_in_send_def socket_send_json_def upt_conv_Cons Let_def)

lemma open_never_cancelled: "never_cancelled open_socket"
  by (simp add: never_cancelled_def open_socket_def)

text \<open>
  Claim C2, as stated, fails. The two \<open>send_report\<close> calls stand in \<open>try\<close> blocks whose
  handler is \<open>except Exception\<close>, which does not catch \<open>asyncio.CancelledError\<close>. With the
  socket \<open>cancelled_in_send\<close> the task is cancelled while the final report is sent. For a
  document that the verification finds, \<open>CancelledError\<close> is then raised to the caller,
  although the claim has no error propagated; for a document that it does not find
  while the importer has raised \<open>Exception("boom")\<close>, the caller receives
  \<open>CancelledError\<close> and not the import error.
\<close>

theorem C2_counterexample_cancelled_report_reaches_caller:
  "verify_document returning_import exact_match_store file_A None = Inr True
   \<and> fst (resilient_import_document returning_import exact_match_store file_A
            (LoggerManager_init (Some cancelled_in_send)) None) = Inl CancelledError
   \<and> verify_document failing_import near_match_store file_A None = Inr False
   \<and> manager_import_document failing_import near_match_store file_A
        (LoggerManager_init (Some cancelled_in_send)) None
       = (Inl (Exception ''boom''), LoggerManager_init (Some cancelled_in_send))
   \<and> fst (resilient_import_document failing_import near_match_store file_A
            (LoggerManager_init (Some cancelled_in_send)) None) = Inl CancelledError"
proof -
  have v1: "verify_document returning_import exact_match_store file_A None = Inr True"
    by (simp add: verify_document_no_credentials check_exact_match_store)
  have v2: "verify_document failing_import near_match_store file_A None = Inr False"
    by (simp add: verify_document_no_credentials check_near_match_store)
  have r1: "fst (resilient_import_document returning_import exact_match_store file_A
            (LoggerManager_init (Some cancelled_in_send)) None) = Inl CancelledError"
  proof -
    have i1: "manager_import_document returning_import exact_match_store file_A
        (LoggerManager_init (Some cancelled_in_send)) None
       = (Inr (), LoggerManager_init (Some cancelled_in_send))"
      by (simp add: returning_import_def)
    have p1: "\<not> commit_pause_cancelled returning_import" by (simp add: returning_import_def)
    show ?thesis
      using verify_and_report_found[OF p1 v1, of "LoggerManager_init (Some cancelled_in_send)"
          None]
      by (simp add: resilient_import_document_def i1 send_report_cancelled_in_send)
  qed
  have i2: "manager_import_document failing_import near_match_store file_A
        (LoggerManager_init (Some cancelled_in_send)) None
       = (Inl (Exception ''boom''), LoggerManager_init (Some cancelled_in_send))"
    by (simp add: failing_import_def)
  have p2: "\<not> commit_pause_cancelled failing_import" by (simp add: failing_import_def)
  have r2: "fst (resilient_import_document failing_import near_match_store file_A
            (LoggerManager_init (Some cancelled_in_send)) None) = Inl CancelledError"
    using verify_and_report_not_found[OF p2 v2, of "LoggerManager_init (Some cancelled_in_send)"
        "Some (Exception ''boom'')"]
    by (simp add: resilient_import_document_def i2 is_Exception_def
        send_report_cancelled_in_send)
  show ?thesis using v1 r1 v2 i2 r2 by blast
qed

text \<open>
  Claim C2, amended. Take a run of \<open>resilient_import_document\<close> in which the importer
  returns or raises an exception other than \<open>CancelledError\<close>, leaving the logger
  \<open>logger1\<close>, the pause before the verification is not cancelled, and the verification
  answers \<open>document_exists\<close>.
  If the document exists, whatever the importer did, the run is exactly the report
  \<open>DONE\<close> with the message "Import for <filename> completed successfully" on \<open>logger1\<close>:
  it returns normally unless the task is cancelled during that report.
  If it does not exist and the importer raised \<open>e\<close>, the logger is left as by the report
  \<open>ERROR\<close> with the message "Import failed: <str(e)>", and then \<open>e\<close> is raised, unless the
  task was cancelled during that report.
  If it does not exist and the importer returned, the report \<open>ERROR\<close> carries
  "Document not found in Weaviate after import (verification failed)", and then
  \<open>Exception("Document not found in Weaviate after import")\<close> is raised, unless the task
  was cancelled during the report.
  On a logger whose socket, if any, never cancels, the run returns normally when the
  document exists and raises the chosen error otherwise, whatever the sends of the
  report do.
\<close>

theorem C2_found_reports_done_else_reports_error_and_raises:
  assumes imp: "manager_import_document g client fileConfig logger credentials
                = (outcome, logger1)"
    and nc: "outcome \<noteq> Inl CancelledError"
    and np: "\<not> commit_pause_cancelled g"
    and v: "verify_document g client fileConfig credentials = Inr document_exists"
  shows
    "(document_exists \<longrightarrow>
        resilient_import_document g client fileConfig logger credentials
          = send_report logger1 (config_fileID fileConfig) DONE
              (''Import for '' @ filename fileConfig @ '' completed successfully'') (elapsed g)
        \<and> (fst (resilient_import_document g client fileConfig logger credentials) = Inr ()
           \<or> fst (resilient_import_document g client fileConfig logger credentials)
               = Inl CancelledError))
     \<and> (\<not> document_exists \<and> outcome = Inl e \<longrightarrow>
        snd (resilient_import_document g client fileConfig logger credentials)
          = snd (send_report logger1 (config_fileID fileConfig) ERROR
                   (''Import failed: '' @ str_exn e) (elapsed g))
        \<and> fst (resilient_import_document g client fileConfig logger credentials)
          = (if fst (send_report logger1 (config_fileID fileConfig) ERROR
                       (''Import failed: '' @ str_exn e) (elapsed g)) = Inr ()
             then Inl e else Inl CancelledError))
     \<and> (\<not> document_exists \<and> outcome = Inr () \<longrightarrow>
        snd (resilient_import_document g client fileConfig logger credentials)
          = snd (send_report logger1 (config_fileID fileConfig) ERROR
                   ''Document not found in Weaviate after import (verification failed)''
                   (elapsed g))
        \<and> fst (resilient_import_document g client fileConfig logger credentials)
          = (if fst (send_report logger1 (config_fileID fileConfig) ERROR
                       ''Document not found in Weaviate after import (verification failed)''
                       (elapsed g)) = Inr ()
             then Inl (Exception ''Document not found in Weaviate after import'')
             else Inl CancelledError))
     \<and> ((\<forall>ws. socket logger1 = Some ws \<longrightarrow> never_cancelled ws) \<longrightarrow>
        fst (resilient_import_document g client fileConfig logger credentials)
          = (if document_exists then Inr ()
             else Inl (case outcome of Inl e' \<Rightarrow> e'
                       | Inr u \<Rightarrow> Exception ''Document not found in Weaviate after import'')))"
proof -
  let ?r = "resilient_import_document g client fileConfig logger credentials"
  let ?ie = "case outcome of Inl e' \<Rightarrow> Some e' | Inr u \<Rightarrow> None"
  have r: "?r = verify_and_report g client fileConfig logger1 credentials ?ie"
    using imp nc by (cases outcome) (simp_all add: resilient_import_document_def is_Exception_def)
  have found: "document_exists \<longrightarrow>
        ?r = send_report logger1 (config_fileID fileConfig) DONE
              (''Import for '' @ filename fileConfig @ '' completed successfully'') (elapsed g)"
    using verify_and_report_found[OF np, of client fileConfig credentials logger1 ?ie] v r
    by simp
  have found_fst: "document_exists \<longrightarrow> fst ?r = Inr () \<or> fst ?r = Inl CancelledError"
    using found send_report_raises_only_cancelled
      [of logger1 "config_fileID fileConfig" DONE
          "''Import for '' @ filename fileConfig @ '' completed successfully''" "elapsed g"]
    by simp
  have nf: "\<not> document_exists \<Longrightarrow>
        snd ?r = snd (send_report logger1 (config_fileID fileConfig) ERROR
             (case ?ie of Some e \<Rightarrow> ''Import failed: '' @ str_exn e
              | None \<Rightarrow> ''Document not found in Weaviate after import (verification failed)'')
             (elapsed g))
       \<and> fst ?r
         = (if fst (send_report logger1 (config_fileID fileConfig) ERROR
             (case ?ie of Some e \<Rightarrow> ''Import failed: '' @ str_exn e
              | None \<Rightarrow> ''Document not found in Weaviate after import (verification failed)'')
             (elapsed g)) = Inr ()
            then Inl (case ?ie of Some e \<Rightarrow> e
                      | None \<Rightarrow> Exception ''Document not found in Weaviate after import'')
            else Inl CancelledError)"
    using verify_and_report_not_found[OF np, of client fileConfig credentials logger1 ?ie] v r
    by simp
  have failed: "\<not> document_exists \<and> outcome = Inl e \<longrightarrow>
        snd ?r = snd (send_report logger1 (config_fileID fileConfig) ERROR
                   (''Import failed: '' @ str_exn e) (elapsed g))
        \<and> fst ?r
          = (if fst (send_report logger1 (config_fileID fileConfig) ERROR
                       (''Import failed: '' @ str_exn e) (elapsed g)) = Inr ()
             then Inl e else Inl CancelledError)"
    using nf by auto
  have missing: "\<not> document_exists \<and> outcome = Inr () \<longrightarrow>
        snd ?r = snd (send_report logger1 (config_fileID fileConfig) ERROR
                   ''Document not found in Weaviate after import (verification failed)''
                   (elapsed g))
        \<and> fst ?r
          = (if fst (send_report logger1 (config_fileID fileConfig) ERROR
                       ''Document not found in Weaviate after import (verification failed)''
                       (elapsed g)) = Inr ()
             then Inl (Exception ''Document not found in Weaviate after import'')
             else Inl CancelledError)"
    using nf by auto
  have quiet: "(\<forall>ws. socket logger1 = Some ws \<longrightarrow> never_cancelled ws) \<longrightarrow>
        fst ?r = (if document_exists then Inr ()
             else Inl (case outcome of Inl e' \<Rightarrow> e'
                       | Inr u \<Rightarrow> Exception ''Document not found in Weaviate after import''))"
  proof
    assume q: "\<forall>ws. socket logger1 = Some ws \<longrightarrow> never_cancelled ws"
    have s: "fst (send_report logger1 fid status message took) = Inr ()"
      for fid status message took
      using q by (rule send_report_never_raises)
    show "fst ?r = (if document_exists then Inr ()
             else Inl (case outcome of Inl e' \<Rightarrow> e'
                       | Inr u \<Rightarrow> Exception ''Document not found in Weaviate after import''))"
    proof (cases document_exists)
      case True
      then show ?thesis using found s by simp
    next
      case False
      then show ?thesis using nf[OF False] s by (cases outcome) simp_all
    qed
  qed
  show ?thesis using found found_fst failed missing quiet by blast
qed


text \<open>
  The amended claim C2 for the file "A.pdf" on a socket that delivers every send, without
  credentials: an importer that raises \<open>Exception("boom")\<close> on a store that holds
  "A.pdf" (the run returns and the one message sent is \<open>DONE\<close>); the same importer on a
  store with near matches only (\<open>ERROR\<close>, "Import failed: boom", and the import error is
  raised); and an importer that returns on that store (\<open>ERROR\<close> with the not-found message,
  and the not-found exception is raised).
\<close>

theorem C2_found_and_not_found_witness:
  "verify_document failing_import exact_match_store file_A None = Inr True
   \<and> resilient_import_document failing_import exact_match_store file_A
        (LoggerManager_init (Some open_socket)) None
     = (Inr (), (LoggerManager_init (Some open_socket))
          \<lparr>calls := 1,
           trace := [Send_json (Status \<lparr>report_fileID = ''f1'', report_status = DONE,
                       report_message = ''Import for A.pdf completed successfully'',
                       report_took = 1.5\<rparr>)]\<rparr>)
   \<and> verify_document failing_import near_match_store file_A None = Inr False
   \<and> fst (resilient_import_document failing_import near_match_store file_A
        (LoggerManager_init (Some open_socket)) None) = Inl (Exception ''boom'')
   \<and> trace (snd (resilient_import_document failing_import near_match_store file_A
        (LoggerManager_init (Some open_socket)) None))
     = [Send_json (Status \<lparr>report_fileID = ''f1'', report_status = ERROR,
                       report_message = ''Import failed: boom'', report_took = 1.5\<rparr>)]
   \<and> verify_document returning_import near_match_store file_A None = Inr False
   \<and> fst (resilient_import_document returning_import near_match_store file_A
        (LoggerManager_init (Some open_socket)) None)
     = Inl (Exception ''Document not found in Weaviate after import'')
   \<and> trace (snd (resilient_import_document returning_import near_match_store file_A
        (LoggerManager_init (Some open_socket)) None))
     = [Send_json (Status \<lparr>report_fileID = ''f1'', report_status = ERROR,
          report_message = ''Document not found in Weaviate after import (verification failed)'',
          report_took = 1.5\<rparr>)]"
proof -
  let ?lg = "LoggerManager_init (Some open_socket)"
  have fi: "manager_import_document failing_import c file_A ?lg None
            = (Inl (Exception ''boom''), ?lg)" for c
    by (simp add: failing_import_def)
  have ri: "manager_import_document returning_import c file_A ?lg None = (Inr (), ?lg)" for c
    by (simp add: returning_import_def)
  have fp: "\<not> commit_pause_cancelled failing_import" by (simp add: failing_import_def)
  have rp: "\<not> commit_pause_cancelled returning_import" by (simp add: returning_import_def)
  have fe: "elapsed failing_import = 1.5" by (simp add: failing_import_def)
  have re: "elapsed returning_import = 1.5" by (simp add: returning_import_def)
  have nc: "Inl (Exception ''boom'') \<noteq> (Inl CancelledError :: exn + unit)" by simp
  have nr: "Inr () \<noteq> (Inl CancelledError :: exn + unit)" by simp
  have fid: "config_fileID file_A = ''f1''" and fn: "filename file_A = ''A.pdf''"
    by (simp_all add: file_A_def)
  have v1: "verify_document failing_import exact_match_store file_A None = Inr True"
    by (simp add: verify_document_no_credentials check_exact_match_store)
  have v2: "verify_document failing_import near_match_store file_A None = Inr False"
    by (simp add: verify_document_no_credentials check_near_match_store)
  have v3: "verify_document returning_import near_match_store file_A None = Inr False"
    by (simp add: verify_document_no_credentials check_near_match_store)
  have a1: "resilient_import_document failing_import exact_match_store file_A ?lg None
     = (Inr (), ?lg
          \<lparr>calls := 1,
           trace := [Send_json (Status \<lparr>report_fileID = ''f1'', report_status = DONE,
                       report_message = ''Import for A.pdf completed successfully'',
                       report_took = 1.5\<rparr>)]\<rparr>)"
    using C2_found_reports_done_else_reports_error_and_raises
      [where e = "Exception ''boom''", OF fi nc fp v1]
    by (simp add: send_report_open_socket fid fn fe)
  have a2: "fst (resilient_import_document failing_import near_match_store file_A ?lg None)
       = Inl (Exception ''boom'')
     \<and> trace (snd (resilient_import_document failing_import near_match_store file_A ?lg None))
     = [Send_json (Status \<lparr>report_fileID = ''f1'', report_status = ERROR,
                       report_message = ''Import failed: boom'', report_took = 1.5\<rparr>)]"
    using C2_found_reports_done_else_reports_error_and_raises
      [where e = "Exception ''boom''", OF fi nc fp v2]
    by (simp add: send_report_open_socket fid fn fe)
  have a3: "fst (resilient_import_document returning_import near_match_store file_A ?lg None)
       = Inl (Exception ''Document not found in Weaviate after import'')
     \<and> trace (snd (resilient_import_document returning_import near_match_store file_A ?lg None))
     = [Send_json (Status \<lparr>report_fileID = ''f1'', report_status = ERROR,
          report_message = ''Document not found in Weaviate after import (verification failed)'',
          report_took = 1.5\<rparr>)]"
    using C2_found_reports_done_else_reports_error_and_raises
      [where e = "Exception ''boom''", OF ri nr rp v3]
    by (simp add: send_report_open_socket fid fn re)
  show ?thesis using v1 a1 v2 a2 v3 a3 by blast
qed

end
